theory Spec2Isabelle
  imports Main "HOL-Library.Word"
begin

section \<open>Go values used by the program\<close>

text \<open>
  A \<open>float64\<close> is kept as its IEEE-754 bit pattern: the program only moves these values
  from the decoded record into a cell and never computes with them. A Go \<open>error\<close> is
  represented by its message. A nil slice and an empty slice are both the empty list.
\<close>

type_synonym float64 = "64 word"

type_synonym go_error = string

subsection \<open>\<open>fmt.Sprintf\<close> with the verbs \<open>%d\<close> and \<open>%c\<close>\<close>

definition digit_char :: "nat \<Rightarrow> char" where
  "digit_char d = char_of (of_char CHR ''0'' + d)"

function fmt_uint :: "nat \<Rightarrow> string" where
  "fmt_uint n = (if n < 10 then [digit_char n] else fmt_uint (n div 10) @ [digit_char (n mod 10)])"
  by pat_completeness auto
termination
  by (relation "measure (\<lambda>n. n)") auto

declare fmt_uint.simps [simp del]

definition Sprintf_d :: "int \<Rightarrow> string" where
  "Sprintf_d n = (if n < 0 then CHR ''-'' # fmt_uint (nat (- n)) else fmt_uint (nat n))"

text \<open>\<open>%c\<close> of a code point below 128 is the one byte of that character.\<close>

definition Sprintf_c :: "nat \<Rightarrow> string" where
  "Sprintf_c r = [char_of r]"

section \<open>Data model (both source files declare the same types and constants)\<close>

definition stockAPIURL :: string where
  "stockAPIURL = ''https://www.onlinekhabar.com/smtm/home/trending''"

definition dataDir :: string where
  "dataDir = ''data''"

definition excelFile :: string where
  "excelFile = ''stock_data.xlsx''"

definition sheetName :: string where
  "sheetName = ''Stock Data''"

record StockData =
  Ticker :: string
  TickerName :: string
  LatestPrice :: string
  PointsChange :: float64
  PercentageChange :: float64
  TradedOfMktCap :: float64

record StockAPIResponse =
  Response :: "StockData list"

record StockService =
  apiURL :: string

record ExcelGenerator =
  filePath :: string

section \<open>The spreadsheet library, as the program uses it\<close>

text \<open>
  The workbook library is not part of the repository. Its calls are modelled by their
  contract on the arguments this program passes: a workbook is a list of named sheets, a
  sheet maps a (column, row) coordinate, both counted from 1, to the value stored there,
  and a cell reference such as \<open>B7\<close> is resolved to its coordinate by
  \<open>CellNameToCoordinates\<close>, which rejects a row above \<open>TotalRows\<close>.

  What a cell stores for a value handed over: a plain text (at most 32767 characters, each
  an ASCII letter, a digit, a space, a dot or a minus sign) is stored as that text, and a
  finite \<open>float64\<close> as that number. The library stores every other value in a form of
  its own (it cuts longer text, replaces control characters and invalid bytes, escapes
  some sequences, and writes NaN and the infinities as text), and not always the same
  form through \<open>SetCellValue\<close> and through the stream writer. These forms are not in
  the program text; they are the two parameters \<open>cell_other\<close> and \<open>stream_other\<close>.
\<close>

datatype cell_value = StrVal string | FloatVal float64

type_synonym worksheet = "nat \<times> nat \<Rightarrow> cell_value option"

type_synonym xlsx_file = "(string \<times> worksheet) list"

definition is_letter :: "char \<Rightarrow> bool" where
  "is_letter c = (let n = (of_char c :: nat) in (65 \<le> n \<and> n \<le> 90) \<or> (97 \<le> n \<and> n \<le> 122))"

definition is_digit :: "char \<Rightarrow> bool" where
  "is_digit c = (let n = (of_char c :: nat) in 48 \<le> n \<and> n \<le> 57)"

definition letter_value :: "char \<Rightarrow> nat" where
  "letter_value c = (let n = (of_char c :: nat) in if 97 \<le> n then n - 96 else n - 64)"

definition ColumnNameToNumber :: "string \<Rightarrow> nat" where
  "ColumnNameToNumber name = foldl (\<lambda>acc c. acc * 26 + letter_value c) 0 name"

definition Atoi :: "string \<Rightarrow> nat option" where
  "Atoi s = (if s \<noteq> [] \<and> list_all is_digit s
             then Some (foldl (\<lambda>acc c. acc * 10 + (of_char c - 48)) 0 s) else None)"

definition TotalRows :: nat where
  "TotalRows = 1048576"

definition max_rows_error :: go_error where
  "max_rows_error = ''row number exceeds maximum limit''"

definition invalid_cell_name :: "string \<Rightarrow> go_error" where
  "invalid_cell_name cell = ''invalid cell name '' @ cell"

definition CellNameToCoordinates :: "string \<Rightarrow> go_error + nat \<times> nat" where
  "CellNameToCoordinates cell =
     (let col = takeWhile is_letter cell; rowStr = dropWhile is_letter cell in
      if col = [] then Inl (invalid_cell_name cell)
      else case Atoi rowStr of
             None \<Rightarrow> Inl (invalid_cell_name cell)
           | Some row \<Rightarrow>
               if row = 0 then Inl (invalid_cell_name cell)
               else if TotalRows < row then Inl max_rows_error
               else Inr (ColumnNameToNumber col, row))"

definition plain_char :: "char \<Rightarrow> bool" where
  "plain_char c = (is_letter c \<or> is_digit c \<or> c = CHR '' '' \<or> c = CHR ''.'' \<or> c = CHR ''-'')"

definition plain_text :: "string \<Rightarrow> bool" where
  "plain_text s = (length s \<le> 32767 \<and> list_all plain_char s)"

text \<open>A \<open>float64\<close> is finite unless the eleven bits of its exponent are all set.\<close>

definition finite_float64 :: "float64 \<Rightarrow> bool" where
  "finite_float64 x = ((unat x div 2 ^ 52) mod 2 ^ 11 \<noteq> 2047)"

fun plain_value :: "cell_value \<Rightarrow> bool" where
  "plain_value (StrVal s) = plain_text s"
| "plain_value (FloatVal x) = finite_float64 x"

record xlsx_library =
  cell_other :: "cell_value \<Rightarrow> cell_value"
  stream_other :: "cell_value \<Rightarrow> cell_value"

definition cell_form :: "xlsx_library \<Rightarrow> cell_value \<Rightarrow> cell_value" where
  "cell_form L v = (if plain_value v then v else cell_other L v)"

definition stream_form :: "xlsx_library \<Rightarrow> cell_value \<Rightarrow> cell_value" where
  "stream_form L v = (if plain_value v then v else stream_other L v)"

definition sheet_missing :: "string \<Rightarrow> go_error" where
  "sheet_missing sheet = ''sheet '' @ sheet @ '' does not exist''"

definition has_sheet :: "xlsx_file \<Rightarrow> string \<Rightarrow> bool" where
  "has_sheet f sheet = (sheet \<in> set (map fst f))"

definition map_sheet :: "string \<Rightarrow> (worksheet \<Rightarrow> worksheet) \<Rightarrow> xlsx_file \<Rightarrow> xlsx_file" where
  "map_sheet sheet g f = map (\<lambda>(n, ws). if n = sheet then (n, g ws) else (n, ws)) f"

definition NewFile :: xlsx_file where
  "NewFile = [(''Sheet1'', Map.empty)]"

definition GetSheetName :: "xlsx_file \<Rightarrow> nat \<Rightarrow> string" where
  "GetSheetName f idx = (if idx < length f then fst (f ! idx) else '''')"

definition SetSheetName :: "xlsx_file \<Rightarrow> string \<Rightarrow> string \<Rightarrow> xlsx_file" where
  "SetSheetName f source target =
     (if source = target \<or> has_sheet f target then f
      else map (\<lambda>(n, ws). if n = source then (target, ws) else (n, ws)) f)"

text \<open>
  \<open>SetCellValue\<close> returns the workbook together with the error value of the call; on an
  error the workbook is unchanged.
\<close>

definition SetCellValue ::
  "xlsx_library \<Rightarrow> xlsx_file \<Rightarrow> string \<Rightarrow> string \<Rightarrow> cell_value \<Rightarrow> xlsx_file \<times> go_error option" where
  "SetCellValue L f sheet cell v =
     (if \<not> has_sheet f sheet then (f, Some (sheet_missing sheet))
      else case CellNameToCoordinates cell of
             Inl err \<Rightarrow> (f, Some err)
           | Inr pos \<Rightarrow> (map_sheet sheet (\<lambda>ws. ws(pos \<mapsto> cell_form L v)) f, None))"

definition GetCell :: "xlsx_file \<Rightarrow> string \<Rightarrow> nat \<times> nat \<Rightarrow> cell_value option" where
  "GetCell f sheet pos = (case map_of f sheet of None \<Rightarrow> None | Some ws \<Rightarrow> ws pos)"

definition row_numbers :: "xlsx_file \<Rightarrow> string \<Rightarrow> nat set" where
  "row_numbers f sheet = (case map_of f sheet of None \<Rightarrow> {} | Some ws \<Rightarrow> snd ` dom ws)"

subsection \<open>The streaming writer\<close>

text \<open>
  A stream writer collects the rows of one sheet; rows must arrive in ascending order;
  \<open>Flush\<close> makes the collected rows the content of the sheet.
\<close>

record StreamWriter =
  sw_sheet :: string
  sw_rows :: worksheet
  sw_last :: nat

definition NewStreamWriter :: "xlsx_file \<Rightarrow> string \<Rightarrow> go_error + StreamWriter" where
  "NewStreamWriter f sheet =
     (if has_sheet f sheet then Inr \<lparr>sw_sheet = sheet, sw_rows = Map.empty, sw_last = 0\<rparr>
      else Inl (sheet_missing sheet))"

fun put_row :: "worksheet \<Rightarrow> nat \<Rightarrow> nat \<Rightarrow> cell_value list \<Rightarrow> worksheet" where
  "put_row ws col row [] = ws"
| "put_row ws col row (v # vs) = put_row (ws((col, row) \<mapsto> v)) (col + 1) row vs"

definition SetRow ::
  "xlsx_library \<Rightarrow> StreamWriter \<Rightarrow> string \<Rightarrow> cell_value list \<Rightarrow> go_error + StreamWriter" where
  "SetRow L sw cell vals =
     (case CellNameToCoordinates cell of
        Inl err \<Rightarrow> Inl err
      | Inr (col, row) \<Rightarrow>
          if row \<le> sw_last sw then Inl (''row '' @ fmt_uint row @ '' has already been written'')
          else Inr (sw\<lparr>sw_rows := put_row (sw_rows sw) col row (map (stream_form L) vals),
                       sw_last := row\<rparr>))"

definition Flush :: "xlsx_file \<Rightarrow> StreamWriter \<Rightarrow> go_error + xlsx_file" where
  "Flush f sw = Inr (map_sheet (sw_sheet sw) (\<lambda>_. sw_rows sw) f)"

section \<open>The JSON decoder, as the program uses it\<close>

text \<open>
  The response body either cannot be read as a JSON value (\<open>Unreadable\<close>, with the
  decoder's error) or holds a JSON value. Decoding into a struct walks the members of an
  object in document order; a member is stored into the field whose \<open>json\<close> tag equals
  its key up to case folding (\<open>fold_equal\<close> below; the six tags and \<open>response\<close> are
  pairwise different up to folding, so at most one field matches and the decoder's
  preference for an exact match changes nothing); other members are skipped; \<open>null\<close> leaves a
  string or number untouched and makes a slice nil; a value of the wrong kind is an
  error. The decoder reports an error after it has gone on decoding; the caller discards
  the value in that case, so the model stops at the first error.
\<close>

datatype json =
    JNull
  | JBool bool
  | JNumber float64
  | JString string
  | JArray "json list"
  | JObject "(string \<times> json) list"

datatype body = Unreadable go_error | Document json

definition to_lower :: "char \<Rightarrow> char" where
  "to_lower c = (let n = (of_char c :: nat) in if 65 \<le> n \<and> n \<le> 90 then char_of (n + 32) else c)"

text \<open>
  \<open>fold_equal key tag\<close>: the key, as UTF-8 bytes, equals the ASCII tag under Unicode
  simple case folding. Besides the two cases of a letter, the long s (bytes C5 BF) folds to
  \<open>s\<close> and the Kelvin sign (bytes E2 84 AA) to \<open>k\<close>.
\<close>

fun fold_equal :: "string \<Rightarrow> string \<Rightarrow> bool" where
  "fold_equal [] [] = True"
| "fold_equal [] (t # ts) = False"
| "fold_equal (c # cs) [] = False"
| "fold_equal (c # cs) (t # ts) =
     (if (of_char c :: nat) < 128 then to_lower c = to_lower t \<and> fold_equal cs ts
      else if to_lower t = CHR ''s'' \<and> c = CHR 0xC5 \<and> take 1 cs = [CHR 0xBF]
        then fold_equal (drop 1 cs) ts
      else if to_lower t = CHR ''k'' \<and> c = CHR 0xE2 \<and> take 2 cs = [CHR 0x84, CHR 0xAA]
        then fold_equal (drop 2 cs) ts
      else False)"

fun json_kind :: "json \<Rightarrow> string" where
  "json_kind JNull = ''null''"
| "json_kind (JBool _) = ''bool''"
| "json_kind (JNumber _) = ''number''"
| "json_kind (JString _) = ''string''"
| "json_kind (JArray _) = ''array''"
| "json_kind (JObject _) = ''object''"

definition unmarshal_type_error :: "json \<Rightarrow> string \<Rightarrow> go_error" where
  "unmarshal_type_error j ty = ''json: cannot unmarshal '' @ json_kind j @ '' into Go value of type '' @ ty"

fun foldM :: "('a \<Rightarrow> 'b \<Rightarrow> 'e + 'a) \<Rightarrow> 'a \<Rightarrow> 'b list \<Rightarrow> 'e + 'a" where
  "foldM f a [] = Inr a"
| "foldM f a (x # xs) = (case f a x of Inl e \<Rightarrow> Inl e | Inr a' \<Rightarrow> foldM f a' xs)"

fun mapM :: "('b \<Rightarrow> 'e + 'a) \<Rightarrow> 'b list \<Rightarrow> 'e + 'a list" where
  "mapM f [] = Inr []"
| "mapM f (x # xs) =
     (case f x of
        Inl e \<Rightarrow> Inl e
      | Inr y \<Rightarrow> (case mapM f xs of Inl e \<Rightarrow> Inl e | Inr ys \<Rightarrow> Inr (y # ys)))"

fun decode_string :: "string \<Rightarrow> json \<Rightarrow> go_error + string" where
  "decode_string cur JNull = Inr cur"
| "decode_string cur (JString s) = Inr s"
| "decode_string cur j = Inl (unmarshal_type_error j ''string'')"

fun decode_float64 :: "float64 \<Rightarrow> json \<Rightarrow> go_error + float64" where
  "decode_float64 cur JNull = Inr cur"
| "decode_float64 cur (JNumber x) = Inr x"
| "decode_float64 cur j = Inl (unmarshal_type_error j ''float64'')"

definition zero_StockData :: StockData where
  "zero_StockData = \<lparr>Ticker = [], TickerName = [], LatestPrice = [],
     PointsChange = 0, PercentageChange = 0, TradedOfMktCap = 0\<rparr>"

definition decode_StockData_member :: "StockData \<Rightarrow> string \<times> json \<Rightarrow> go_error + StockData" where
  "decode_StockData_member sd m =
     (let k = fst m; v = snd m in
      if fold_equal k ''ticker'' then map_sum id (\<lambda>x. sd\<lparr>Ticker := x\<rparr>) (decode_string (Ticker sd) v)
      else if fold_equal k ''ticker_name'' then map_sum id (\<lambda>x. sd\<lparr>TickerName := x\<rparr>) (decode_string (TickerName sd) v)
      else if fold_equal k ''latest_price'' then map_sum id (\<lambda>x. sd\<lparr>LatestPrice := x\<rparr>) (decode_string (LatestPrice sd) v)
      else if fold_equal k ''points_change'' then map_sum id (\<lambda>x. sd\<lparr>PointsChange := x\<rparr>) (decode_float64 (PointsChange sd) v)
      else if fold_equal k ''percentage_change'' then map_sum id (\<lambda>x. sd\<lparr>PercentageChange := x\<rparr>) (decode_float64 (PercentageChange sd) v)
      else if fold_equal k ''traded_of_mkt_cap'' then map_sum id (\<lambda>x. sd\<lparr>TradedOfMktCap := x\<rparr>) (decode_float64 (TradedOfMktCap sd) v)
      else Inr sd)"

fun decode_StockData :: "json \<Rightarrow> go_error + StockData" where
  "decode_StockData JNull = Inr zero_StockData"
| "decode_StockData (JObject ms) = foldM decode_StockData_member zero_StockData ms"
| "decode_StockData j = Inl (unmarshal_type_error j ''main.StockData'')"

fun decode_slice :: "json \<Rightarrow> go_error + StockData list" where
  "decode_slice JNull = Inr []"
| "decode_slice (JArray xs) = mapM decode_StockData xs"
| "decode_slice j = Inl (unmarshal_type_error j ''[]main.StockData'')"

definition decode_response_member :: "StockAPIResponse \<Rightarrow> string \<times> json \<Rightarrow> go_error + StockAPIResponse" where
  "decode_response_member r m =
     (if fold_equal (fst m) ''response''
      then map_sum id (\<lambda>xs. r\<lparr>Response := xs\<rparr>) (decode_slice (snd m))
      else Inr r)"

fun decode_value :: "json \<Rightarrow> go_error + StockAPIResponse" where
  "decode_value JNull = Inr \<lparr>Response = []\<rparr>"
| "decode_value (JObject ms) = foldM decode_response_member \<lparr>Response = []\<rparr> ms"
| "decode_value j = Inl (unmarshal_type_error j ''main.StockAPIResponse'')"

fun Decode :: "body \<Rightarrow> go_error + StockAPIResponse" where
  "Decode (Unreadable err) = Inl err"
| "Decode (Document j) = decode_value j"

section \<open>The environment and the observable effects\<close>

text \<open>
  What the network and the file system answer is an input of the model: \<open>http_Get\<close>
  gives the outcome of the GET for a URL, \<open>os_MkdirAll\<close> and \<open>file_SaveAs\<close> the error
  value of creating a directory tree and of persisting a workbook (\<open>None\<close> is Go's nil
  error). The two path functions of the standard library are parameters as well, and so
  are the forms in which the workbook library stores values that are not plain
  (\<open>excelize\<close>). Each function of the program returns, besides its result, the effects
  it performed, in order.
\<close>

record http_Response =
  StatusCode :: int
  Body :: body

record env =
  http_Get :: "string \<Rightarrow> go_error + http_Response"
  os_MkdirAll :: "string \<Rightarrow> go_error option"
  file_SaveAs :: "string \<Rightarrow> xlsx_file \<Rightarrow> go_error option"
  filepath_Join :: "string \<Rightarrow> string \<Rightarrow> string"
  filepath_Dir :: "string \<Rightarrow> string"
  excelize :: xlsx_library

datatype event =
    EvGet string
  | EvRead
  | EvClose
  | EvMkdirAll string
  | EvSaveAs string xlsx_file
  | EvPrintln string
  | EvFatalf string

text \<open>A deferred call runs when the function returns, on every path.\<close>

definition deferred :: "event \<Rightarrow> 'a \<times> event list \<Rightarrow> 'a \<times> event list" where
  "deferred ev r = (fst r, snd r @ [ev])"

section \<open>The fetcher (the same text in both source files)\<close>

definition NewStockService :: "string \<Rightarrow> StockService" where
  "NewStockService url = \<lparr>apiURL = url\<rparr>"

definition http_StatusOK :: int where
  "http_StatusOK = 200"

text \<open>Lines 49 to 58: what runs between the \<open>defer\<close> and the return.\<close>

definition read_response :: "http_Response \<Rightarrow> (go_error + StockData list) \<times> event list" where
  "read_response resp =
     (if StatusCode resp \<noteq> http_StatusOK
      then (Inl (''API request failed with status code: '' @ Sprintf_d (StatusCode resp)), [])
      else case Decode (Body resp) of
             Inl err \<Rightarrow> (Inl (''failed to decode JSON response: '' @ err), [EvRead])
           | Inr stockResponse \<Rightarrow> (Inr (Response stockResponse), [EvRead]))"

definition FetchStockData :: "env \<Rightarrow> StockService \<Rightarrow> (go_error + StockData list) \<times> event list" where
  "FetchStockData w s =
     (case http_Get w (apiURL s) of
        Inl err \<Rightarrow> (Inl (''failed to fetch stock data: '' @ err), [EvGet (apiURL s)])
      | Inr resp \<Rightarrow>
          (let r = deferred EvClose (read_response resp)
           in (fst r, EvGet (apiURL s) # snd r)))"

section \<open>The writer\<close>

definition NewExcelGenerator :: "env \<Rightarrow> string \<Rightarrow> string \<Rightarrow> ExcelGenerator" where
  "NewExcelGenerator w directory filename = \<lparr>filePath = filepath_Join w directory filename\<rparr>"

definition headers :: "string list" where
  "headers = [''Ticker'', ''Ticker Name'', ''Latest Price'', ''Points Change'',
              ''Percentage Change'', ''Traded Of Mkt Cap'']"

text \<open>Lines 111 to 120 of the streaming file, 90 to 99 of the other: the same text.\<close>

definition save_workbook :: "env \<Rightarrow> ExcelGenerator \<Rightarrow> xlsx_file \<Rightarrow> go_error option \<times> event list" where
  "save_workbook w e f =
     (let dir = filepath_Dir w (filePath e) in
      case os_MkdirAll w dir of
        Some err \<Rightarrow> (Some (''failed to create directory: '' @ err), [EvMkdirAll dir])
      | None \<Rightarrow>
          (case file_SaveAs w (filePath e) f of
             Some err \<Rightarrow> (Some (''failed to save Excel file: '' @ err),
                          [EvMkdirAll dir, EvSaveAs (filePath e) f])
           | None \<Rightarrow> (None, [EvMkdirAll dir, EvSaveAs (filePath e) f,
                             EvPrintln (''Excel file saved at: '' @ filePath e @ [CHR 0x0A])])))"

subsection \<open>In memory: \<open>src/main.go\<close>\<close>

text \<open>
  The two loops ignore the error value of \<open>SetCellValue\<close>, as the source does. The loop
  index is a Go \<open>int\<close>; no slice is long enough for \<open>i + 2\<close> to overflow, so the index
  is a natural number here.
\<close>

fun write_headers :: "env \<Rightarrow> nat \<Rightarrow> string list \<Rightarrow> xlsx_file \<Rightarrow> xlsx_file" where
  "write_headers w col [] f = f"
| "write_headers w col (header # rest) f =
     write_headers w (col + 1) rest
       (fst (SetCellValue (excelize w) f sheetName (Sprintf_c (of_char CHR ''A'' + col) @ ''1'')
              (StrVal header)))"

definition write_stock :: "env \<Rightarrow> nat \<Rightarrow> StockData \<Rightarrow> xlsx_file \<Rightarrow> xlsx_file" where
  "write_stock w i stock f0 =
     (let L = excelize w;
          f1 = fst (SetCellValue L f0 sheetName (''A'' @ Sprintf_d (int i + 2)) (StrVal (Ticker stock)));
          f2 = fst (SetCellValue L f1 sheetName (''B'' @ Sprintf_d (int i + 2)) (StrVal (TickerName stock)));
          f3 = fst (SetCellValue L f2 sheetName (''C'' @ Sprintf_d (int i + 2)) (StrVal (LatestPrice stock)));
          f4 = fst (SetCellValue L f3 sheetName (''D'' @ Sprintf_d (int i + 2)) (FloatVal (PointsChange stock)));
          f5 = fst (SetCellValue L f4 sheetName (''E'' @ Sprintf_d (int i + 2)) (FloatVal (PercentageChange stock)))
      in fst (SetCellValue L f5 sheetName (''F'' @ Sprintf_d (int i + 2)) (FloatVal (TradedOfMktCap stock))))"

fun write_stocks :: "env \<Rightarrow> nat \<Rightarrow> StockData list \<Rightarrow> xlsx_file \<Rightarrow> xlsx_file" where
  "write_stocks w i [] f = f"
| "write_stocks w i (stock # rest) f = write_stocks w (i + 1) rest (write_stock w i stock f)"

text \<open>Lines 72 to 88: the workbook handed to \<open>SaveAs\<close>.\<close>

definition workbook :: "env \<Rightarrow> StockData list \<Rightarrow> xlsx_file" where
  "workbook w stocks =
     write_stocks w 0 stocks (write_headers w 0 headers (SetSheetName NewFile ''Sheet1'' sheetName))"

definition GenerateExcelFile :: "env \<Rightarrow> ExcelGenerator \<Rightarrow> StockData list \<Rightarrow> go_error option \<times> event list" where
  "GenerateExcelFile w e stocks = save_workbook w e (workbook w stocks)"

subsection \<open>Streaming: \<open>src/unnamed/part_000\<close>\<close>

definition rowData :: "StockData \<Rightarrow> cell_value list" where
  "rowData stock = [StrVal (Ticker stock), StrVal (TickerName stock), StrVal (LatestPrice stock),
     FloatVal (PointsChange stock), FloatVal (PercentageChange stock), FloatVal (TradedOfMktCap stock)]"

fun stream_stocks :: "env \<Rightarrow> nat \<Rightarrow> StockData list \<Rightarrow> StreamWriter \<Rightarrow> go_error + StreamWriter" where
  "stream_stocks w i [] sw = Inr sw"
| "stream_stocks w i (stock # rest) sw =
     (let row = int i + 2; cell = ''A'' @ Sprintf_d row in
      case SetRow (excelize w) sw cell (rowData stock) of
        Inl err \<Rightarrow> Inl (''failed to write row '' @ Sprintf_d row @ '': '' @ err)
      | Inr sw' \<Rightarrow> stream_stocks w (i + 1) rest sw')"

text \<open>Lines 72 to 109: the workbook handed to \<open>SaveAs\<close>, or the error returned before.\<close>

definition stream_workbook :: "env \<Rightarrow> StockData list \<Rightarrow> go_error + xlsx_file" where
  "stream_workbook w stocks =
     (let f0 = NewFile;
          defaultSheetName = GetSheetName f0 0;
          f = (if defaultSheetName \<noteq> sheetName then SetSheetName f0 defaultSheetName sheetName else f0)
      in case NewStreamWriter f sheetName of
           Inl err \<Rightarrow> Inl (''failed to create stream writer: '' @ err)
         | Inr sw0 \<Rightarrow>
             (case SetRow (excelize w) sw0 ''A1'' (map StrVal headers) of
                Inl err \<Rightarrow> Inl (''failed to write headers: '' @ err)
              | Inr sw1 \<Rightarrow>
                  (case stream_stocks w 0 stocks sw1 of
                     Inl err \<Rightarrow> Inl err
                   | Inr sw2 \<Rightarrow>
                       (case Flush f sw2 of
                          Inl err \<Rightarrow> Inl (''failed to flush stream writer: '' @ err)
                        | Inr f' \<Rightarrow> Inr f'))))"

definition GenerateExcelFile_stream :: "env \<Rightarrow> ExcelGenerator \<Rightarrow> StockData list \<Rightarrow> go_error option \<times> event list" where
  "GenerateExcelFile_stream w e stocks =
     (case stream_workbook w stocks of
        Inl err \<Rightarrow> (Some err, [])
      | Inr f \<Rightarrow> save_workbook w e f)"

section \<open>The entry point\<close>

text \<open>
  \<open>log.Fatalf\<close> prints and ends the process with status 1; a run that falls off the end
  of \<open>main\<close> ends with status 0. The result is the effects of the run and the status.
\<close>

definition main_body ::
  "(env \<Rightarrow> ExcelGenerator \<Rightarrow> StockData list \<Rightarrow> go_error option \<times> event list) \<Rightarrow> env \<Rightarrow> event list \<times> nat" where
  "main_body generate w =
     (let stockService = NewStockService stockAPIURL;
          excelGenerator = NewExcelGenerator w dataDir excelFile;
          fetched = FetchStockData w stockService
      in case fst fetched of
           Inl err \<Rightarrow> (snd fetched @ [EvFatalf (''Error fetching stock data: '' @ err)], 1)
         | Inr stocks \<Rightarrow>
             (let written = generate w excelGenerator stocks in
              case fst written of
                Some err \<Rightarrow> (snd fetched @ snd written @ [EvFatalf (''Error generating Excel file: '' @ err)], 1)
              | None \<Rightarrow> (snd fetched @ snd written, 0)))"

definition main :: "env \<Rightarrow> event list \<times> nat" where
  "main = main_body GenerateExcelFile"

definition main_stream :: "env \<Rightarrow> event list \<times> nat" where
  "main_stream = main_body GenerateExcelFile_stream"

section \<open>Example inputs\<close>

definition example_stock :: StockData where
  "example_stock = \<lparr>Ticker = ''ABC'', TickerName = ''Alpha'', LatestPrice = ''120.5'',
     PointsChange = 0x3FF3333333333333, PercentageChange = 0x3FE0000000000000,
     TradedOfMktCap = 0x4008CCCCCCCCCCCD\<rparr>"

definition example_library :: xlsx_library where
  "example_library =
     \<lparr>cell_other = (\<lambda>v. case v of StrVal s \<Rightarrow> StrVal (take 32767 s) | FloatVal x \<Rightarrow> StrVal ''NaN''),
      stream_other = (\<lambda>v. case v of StrVal s \<Rightarrow> StrVal (take 32767 s) | FloatVal x \<Rightarrow> StrVal ''NaN'')\<rparr>"

definition example_env :: "go_error + http_Response \<Rightarrow> go_error option \<Rightarrow> env" where
  "example_env answer mkdir =
     \<lparr>http_Get = (\<lambda>url. answer),
      os_MkdirAll = (\<lambda>dir. mkdir),
      file_SaveAs = (\<lambda>path f. None),
      filepath_Join = (\<lambda>dir name. dir @ ''/'' @ name),
      filepath_Dir = (\<lambda>path. takeWhile (\<lambda>c. c \<noteq> CHR ''/'') path),
      excelize = example_library\<rparr>"

definition example_body :: body where
  "example_body = Document (JObject [(''response'', JArray [JObject
     [(''ticker'', JString ''ABC''), (''ticker_name'', JString ''Alpha''),
      (''latest_price'', JString ''120.5''), (''points_change'', JNumber 0x3FF3333333333333),
      (''percentage_change'', JNumber 0x3FE0000000000000),
      (''traded_of_mkt_cap'', JNumber 0x4008CCCCCCCCCCCD)]])])"

section \<open>Cell references\<close>

lemma of_char_digit_char: "d < 10 \<Longrightarrow> (of_char (digit_char d) :: nat) = 48 + d"
  by (simp add: digit_char_def)

lemma is_digit_digit_char: "d < 10 \<Longrightarrow> is_digit (digit_char d)"
  by (simp add: is_digit_def of_char_digit_char)

lemma not_letter_digit_char: "d < 10 \<Longrightarrow> \<not> is_letter (digit_char d)"
  by (simp add: is_letter_def of_char_digit_char)

lemma fmt_uint_nonempty: "fmt_uint n \<noteq> []"
  by (subst fmt_uint.simps) simp

lemma fmt_uint_digits: "list_all is_digit (fmt_uint n)"
proof (induction n rule: fmt_uint.induct)
  case (1 n)
  show ?case
  proof (cases "n < 10")
    case True
    then show ?thesis by (subst fmt_uint.simps) (simp add: is_digit_digit_char)
  next
    case False
    with 1 show ?thesis by (subst fmt_uint.simps) (simp add: is_digit_digit_char)
  qed
qed

lemma fmt_uint_value: "foldl (\<lambda>acc c. acc * 10 + (of_char c - 48)) 0 (fmt_uint n) = n"
proof (induction n rule: fmt_uint.induct)
  case (1 n)
  show ?case
  proof (cases "n < 10")
    case True
    then show ?thesis by (subst fmt_uint.simps) (simp add: of_char_digit_char)
  next
    case False
    with 1 show ?thesis by (subst fmt_uint.simps) (simp add: of_char_digit_char)
  qed
qed

lemma Atoi_fmt_uint: "Atoi (fmt_uint n) = Some n"
  by (simp add: Atoi_def fmt_uint_nonempty fmt_uint_digits fmt_uint_value)

lemma fmt_uint_no_letter: "takeWhile is_letter (fmt_uint n) = [] \<and> dropWhile is_letter (fmt_uint n) = fmt_uint n"
proof -
  obtain c cs where eq: "fmt_uint n = c # cs"
    using fmt_uint_nonempty [of n] by (cases "fmt_uint n") auto
  have "is_digit c" using fmt_uint_digits [of n] by (simp add: eq)
  then have "\<not> is_letter c" by (auto simp: is_digit_def is_letter_def Let_def)
  then show ?thesis by (simp add: eq)
qed

lemma Sprintf_d_row: "Sprintf_d (int i + 2) = fmt_uint (i + 2)"
  by (simp add: Sprintf_d_def nat_add_distrib)

lemma letter_cell:
  assumes "is_letter L" "0 < n"
  shows "CellNameToCoordinates (L # fmt_uint n) =
           (if TotalRows < n then Inl max_rows_error else Inr (letter_value L, n))"
  using assms fmt_uint_no_letter [of n]
  by (simp add: CellNameToCoordinates_def Atoi_fmt_uint ColumnNameToNumber_def)

lemma data_cells:
  assumes "i + 2 \<le> TotalRows"
  shows "CellNameToCoordinates (CHR ''A'' # Sprintf_d (int i + 2)) = Inr (1, i + 2)"
    "CellNameToCoordinates (CHR ''B'' # Sprintf_d (int i + 2)) = Inr (2, i + 2)"
    "CellNameToCoordinates (CHR ''C'' # Sprintf_d (int i + 2)) = Inr (3, i + 2)"
    "CellNameToCoordinates (CHR ''D'' # Sprintf_d (int i + 2)) = Inr (4, i + 2)"
    "CellNameToCoordinates (CHR ''E'' # Sprintf_d (int i + 2)) = Inr (5, i + 2)"
    "CellNameToCoordinates (CHR ''F'' # Sprintf_d (int i + 2)) = Inr (6, i + 2)"
  using assms by (simp_all add: Sprintf_d_row letter_cell is_letter_def letter_value_def)

lemma data_cells_beyond:
  assumes "TotalRows < i + 2"
  shows "CellNameToCoordinates (CHR ''A'' # Sprintf_d (int i + 2)) = Inl max_rows_error"
    "CellNameToCoordinates (CHR ''B'' # Sprintf_d (int i + 2)) = Inl max_rows_error"
    "CellNameToCoordinates (CHR ''C'' # Sprintf_d (int i + 2)) = Inl max_rows_error"
    "CellNameToCoordinates (CHR ''D'' # Sprintf_d (int i + 2)) = Inl max_rows_error"
    "CellNameToCoordinates (CHR ''E'' # Sprintf_d (int i + 2)) = Inl max_rows_error"
    "CellNameToCoordinates (CHR ''F'' # Sprintf_d (int i + 2)) = Inl max_rows_error"
  using assms by (simp_all add: Sprintf_d_row letter_cell is_letter_def)

lemma header_cell:
  assumes "col < 26"
  shows "CellNameToCoordinates (Sprintf_c (of_char CHR ''A'' + col) @ ''1'') = Inr (col + 1, 1)"
  using assms
  by (simp add: Sprintf_c_def CellNameToCoordinates_def is_letter_def Atoi_def is_digit_def
      ColumnNameToNumber_def letter_value_def TotalRows_def)

lemma A1_cell: "CellNameToCoordinates ''A1'' = Inr (1, 1)"
  by (simp add: CellNameToCoordinates_def is_letter_def Atoi_def is_digit_def
      ColumnNameToNumber_def letter_value_def TotalRows_def)

lemma plain_headers: "list_all plain_text headers"
  by (simp add: headers_def plain_text_def plain_char_def is_letter_def is_digit_def)

lemma cell_form_plain: "plain_value v \<Longrightarrow> cell_form L v = v"
  by (simp add: cell_form_def)

lemma stream_form_plain: "plain_value v \<Longrightarrow> stream_form L v = v"
  by (simp add: stream_form_def)

lemma header_forms:
  "map (cell_form L) (map StrVal headers) = map StrVal headers"
  "map (stream_form L) (map StrVal headers) = map StrVal headers"
  using plain_headers by (simp_all add: list_all_iff cell_form_def stream_form_def)

section \<open>The content of the workbook\<close>

lemma put_row_apply:
  "put_row ws c r vs (c', r') =
     (if r' = r \<and> c \<le> c' \<and> c' < c + length vs then Some (vs ! (c' - c)) else ws (c', r'))"
proof (induction vs arbitrary: ws c)
  case Nil
  then show ?case by auto
next
  case (Cons v vs)
  have "put_row ws c r (v # vs) (c', r') = put_row (ws((c, r) \<mapsto> v)) (c + 1) r vs (c', r')"
    by simp
  also have "\<dots> = (if r' = r \<and> c + 1 \<le> c' \<and> c' < c + 1 + length vs
                    then Some (vs ! (c' - (c + 1))) else (ws((c, r) \<mapsto> v)) (c', r'))"
    by (rule Cons.IH)
  also have "\<dots> = (if r' = r \<and> c \<le> c' \<and> c' < c + length (v # vs)
                    then Some ((v # vs) ! (c' - c)) else ws (c', r'))"
    by (auto simp: nth_Cons' Suc_diff_le)
  finally show ?case .
qed

lemma SetCellValue_single:
  "CellNameToCoordinates cell = Inr pos \<Longrightarrow>
   SetCellValue L [(sheetName, ws)] sheetName cell v = ([(sheetName, ws(pos \<mapsto> cell_form L v))], None)"
  by (simp add: SetCellValue_def has_sheet_def map_sheet_def)

lemma SetCellValue_rejected:
  "CellNameToCoordinates cell = Inl err \<Longrightarrow>
   SetCellValue L [(sheetName, ws)] sheetName cell v = ([(sheetName, ws)], Some err)"
  by (simp add: SetCellValue_def has_sheet_def)

lemma renamed_file: "SetSheetName NewFile ''Sheet1'' sheetName = [(sheetName, Map.empty)]"
  by (simp add: SetSheetName_def NewFile_def has_sheet_def sheetName_def)

lemma write_headers_single:
  "col + length hs \<le> 26 \<Longrightarrow>
   write_headers w col hs [(sheetName, ws)] =
     [(sheetName, put_row ws (col + 1) 1 (map (cell_form (excelize w)) (map StrVal hs)))]"
proof (induction hs arbitrary: col ws)
  case Nil
  then show ?case by simp
next
  case (Cons h hs)
  then have "col < 26" and rest: "(col + 1) + length hs \<le> 26" by simp_all
  then have cell: "SetCellValue (excelize w) [(sheetName, ws)] sheetName
        (Sprintf_c (of_char CHR ''A'' + col) @ ''1'') (StrVal h)
      = ([(sheetName, ws((col + 1, 1) \<mapsto> cell_form (excelize w) (StrVal h)))], None)"
    by (intro SetCellValue_single header_cell)
  have "write_headers w col (h # hs) [(sheetName, ws)] =
        write_headers w (col + 1) hs [(sheetName, ws((col + 1, 1) \<mapsto> cell_form (excelize w) (StrVal h)))]"
    by (simp only: write_headers.simps cell fst_conv)
  also have "\<dots> = [(sheetName, put_row (ws((col + 1, 1) \<mapsto> cell_form (excelize w) (StrVal h)))
                        (col + 1 + 1) 1 (map (cell_form (excelize w)) (map StrVal hs)))]"
    by (rule Cons.IH [OF rest])
  finally show ?case by simp
qed

lemma write_stock_single:
  "i + 2 \<le> TotalRows \<Longrightarrow>
   write_stock w i stock [(sheetName, ws)] =
     [(sheetName, put_row ws 1 (i + 2) (map (cell_form (excelize w)) (rowData stock)))]"
  by (simp add: write_stock_def rowData_def SetCellValue_def has_sheet_def map_sheet_def data_cells
      eval_nat_numeral Let_def)

lemma write_stock_beyond:
  "TotalRows < i + 2 \<Longrightarrow> write_stock w i stock [(sheetName, ws)] = [(sheetName, ws)]"
  by (simp add: write_stock_def SetCellValue_def has_sheet_def data_cells_beyond Let_def)

lemma write_stocks_cells:
  "\<exists>ws'. write_stocks w i stocks [(sheetName, ws)] = [(sheetName, ws')] \<and>
     (\<forall>c r. ws' (c, r) =
        (if i + 2 \<le> r \<and> r < i + 2 + length stocks \<and> r \<le> TotalRows \<and> 1 \<le> c \<and> c < 7
         then Some (cell_form (excelize w) (rowData (stocks ! (r - (i + 2))) ! (c - 1)))
         else ws (c, r)))"
proof (induction stocks arbitrary: i ws)
  case Nil
  then show ?case by auto
next
  case (Cons stock rest)
  define ws1 where "ws1 = (if i + 2 \<le> TotalRows
      then put_row ws 1 (i + 2) (map (cell_form (excelize w)) (rowData stock)) else ws)"
  from Cons.IH [of "i + 1" ws1] obtain ws' where
    w: "write_stocks w (i + 1) rest [(sheetName, ws1)] = [(sheetName, ws')]"
    and c: "\<And>c r. ws' (c, r) =
        (if i + 1 + 2 \<le> r \<and> r < i + 1 + 2 + length rest \<and> r \<le> TotalRows \<and> 1 \<le> c \<and> c < 7
         then Some (cell_form (excelize w) (rowData (rest ! (r - (i + 1 + 2))) ! (c - 1)))
         else ws1 (c, r))"
    by blast
  have len: "length (rowData stock) = 6" by (simp add: rowData_def)
  have "ws' (c, r) =
        (if i + 2 \<le> r \<and> r < i + 2 + length (stock # rest) \<and> r \<le> TotalRows \<and> 1 \<le> c \<and> c < 7
         then Some (cell_form (excelize w) (rowData ((stock # rest) ! (r - (i + 2))) ! (c - 1)))
         else ws (c, r))" for c r
  proof (cases "r = i + 2")
    case True
    then show ?thesis by (auto simp: c ws1_def put_row_apply len)
  next
    case False
    then show ?thesis by (auto simp: c ws1_def put_row_apply len nth_Cons' Suc_diff_le)
  qed
  moreover have "write_stock w i stock [(sheetName, ws)] = [(sheetName, ws1)]"
    by (cases "i + 2 \<le> TotalRows") (simp_all add: ws1_def write_stock_single write_stock_beyond)
  then have "write_stocks w i (stock # rest) [(sheetName, ws)] = [(sheetName, ws')]"
    using w by simp
  ultimately show ?case by blast
qed

lemma SetRow_data:
  "sw_last sw < i + 2 \<Longrightarrow> i + 2 \<le> TotalRows \<Longrightarrow>
   SetRow L sw (CHR ''A'' # Sprintf_d (int i + 2)) vals =
     Inr (sw\<lparr>sw_rows := put_row (sw_rows sw) 1 (i + 2) (map (stream_form L) vals), sw_last := i + 2\<rparr>)"
  using data_cells(1) [of i] by (simp add: SetRow_def)

lemma SetRow_beyond:
  "TotalRows < i + 2 \<Longrightarrow>
   SetRow L sw (CHR ''A'' # Sprintf_d (int i + 2)) vals = Inl max_rows_error"
  using data_cells_beyond(1) [of i] by (simp add: SetRow_def)

lemma stream_stocks_cells:
  "sw_last sw < i + 2 \<Longrightarrow> i + 1 + length stocks \<le> TotalRows \<Longrightarrow>
   \<exists>sw'. stream_stocks w i stocks sw = Inr sw' \<and> sw_sheet sw' = sw_sheet sw \<and>
     (\<forall>c r. sw_rows sw' (c, r) =
        (if i + 2 \<le> r \<and> r < i + 2 + length stocks \<and> 1 \<le> c \<and> c < 7
         then Some (stream_form (excelize w) (rowData (stocks ! (r - (i + 2))) ! (c - 1)))
         else sw_rows sw (c, r)))"
proof (induction stocks arbitrary: i sw)
  case Nil
  then show ?case by auto
next
  case (Cons stock rest)
  define sw1 where "sw1 = sw\<lparr>sw_rows := put_row (sw_rows sw) 1 (i + 2)
      (map (stream_form (excelize w)) (rowData stock)), sw_last := i + 2\<rparr>"
  have row: "i + 2 \<le> TotalRows" using Cons.prems(2) by simp
  have "sw_last sw1 < (i + 1) + 2" and "(i + 1) + 1 + length rest \<le> TotalRows"
    using Cons.prems(2) by (simp_all add: sw1_def)
  from Cons.IH [OF this] obtain sw' where
    a: "stream_stocks w (i + 1) rest sw1 = Inr sw'" and b: "sw_sheet sw' = sw_sheet sw1"
    and c: "\<And>c r. sw_rows sw' (c, r) =
        (if i + 1 + 2 \<le> r \<and> r < i + 1 + 2 + length rest \<and> 1 \<le> c \<and> c < 7
         then Some (stream_form (excelize w) (rowData (rest ! (r - (i + 1 + 2))) ! (c - 1)))
         else sw_rows sw1 (c, r))"
    by blast
  have s1: "stream_stocks w i (stock # rest) sw = stream_stocks w (i + 1) rest sw1"
    using Cons.prems(1) row by (simp add: SetRow_data Let_def sw1_def)
  have len: "length (rowData stock) = 6" by (simp add: rowData_def)
  have "sw_rows sw' (c, r) =
        (if i + 2 \<le> r \<and> r < i + 2 + length (stock # rest) \<and> 1 \<le> c \<and> c < 7
         then Some (stream_form (excelize w) (rowData ((stock # rest) ! (r - (i + 2))) ! (c - 1)))
         else sw_rows sw (c, r))" for c r
  proof (cases "r = i + 2")
    case True
    then show ?thesis by (auto simp: c sw1_def put_row_apply len)
  next
    case False
    then show ?thesis by (auto simp: c sw1_def put_row_apply len nth_Cons' Suc_diff_le)
  qed
  moreover have "sw_sheet sw' = sw_sheet sw" using b by (simp add: sw1_def)
  ultimately show ?case using a unfolding s1 by blast
qed

lemma stream_stocks_beyond:
  "sw_last sw < i + 2 \<Longrightarrow> i + 1 \<le> TotalRows \<Longrightarrow> TotalRows < i + 1 + length stocks \<Longrightarrow>
   stream_stocks w i stocks sw =
     Inl (''failed to write row '' @ Sprintf_d (int TotalRows + 1) @ '': '' @ max_rows_error)"
proof (induction stocks arbitrary: i sw)
  case Nil
  then show ?case by simp
next
  case (Cons stock rest)
  show ?case
  proof (cases "i + 2 \<le> TotalRows")
    case True
    define sw1 where "sw1 = sw\<lparr>sw_rows := put_row (sw_rows sw) 1 (i + 2)
        (map (stream_form (excelize w)) (rowData stock)), sw_last := i + 2\<rparr>"
    have "sw_last sw1 < (i + 1) + 2" "(i + 1) + 1 \<le> TotalRows" "TotalRows < (i + 1) + 1 + length rest"
      using True Cons.prems(3) by (simp_all add: sw1_def)
    from Cons.IH [OF this] have "stream_stocks w (i + 1) rest sw1 =
       Inl (''failed to write row '' @ Sprintf_d (int TotalRows + 1) @ '': '' @ max_rows_error)" .
    moreover have "stream_stocks w i (stock # rest) sw = stream_stocks w (i + 1) rest sw1"
      using Cons.prems(1) True by (simp add: SetRow_data Let_def sw1_def)
    ultimately show ?thesis by simp
  next
    case False
    with Cons.prems(2) have eq: "i + 1 = TotalRows" by simp
    then have "TotalRows < i + 2" by simp
    from SetRow_beyond [OF this] have A:
      "stream_stocks w i (stock # rest) sw =
         Inl (''failed to write row '' @ Sprintf_d (int i + 2) @ '': '' @ max_rows_error)"
      by (simp add: Let_def)
    have B: "int i + 2 = int TotalRows + 1" using eq by linarith
    show ?thesis by (simp only: A B)
  qed
qed

lemma GetCell_single: "GetCell [(sheetName, ws)] sheetName pos = ws pos"
  by (simp add: GetCell_def)

lemma headers_file:
  "write_headers w 0 headers (SetSheetName NewFile ''Sheet1'' sheetName) =
     [(sheetName, put_row Map.empty 1 1 (map StrVal headers))]"
proof -
  have len: "0 + length headers \<le> 26" by (simp add: headers_def)
  show ?thesis
    unfolding renamed_file write_headers_single [OF len] header_forms by simp
qed

lemma workbook_shape:
  "\<exists>ws. workbook w stocks = [(sheetName, ws)] \<and>
     (\<forall>c r. ws (c, r) =
        (if 2 \<le> r \<and> r < 2 + length stocks \<and> r \<le> TotalRows \<and> 1 \<le> c \<and> c < 7
         then Some (cell_form (excelize w) (rowData (stocks ! (r - 2)) ! (c - 1)))
         else if r = 1 \<and> 1 \<le> c \<and> c < 7 then Some (StrVal (headers ! (c - 1)))
         else None))"
proof -
  from write_stocks_cells [of w 0 stocks "put_row Map.empty 1 1 (map StrVal headers)", unfolded add_0]
  obtain ws where w: "write_stocks w 0 stocks [(sheetName, put_row Map.empty 1 1 (map StrVal headers))] = [(sheetName, ws)]"
    and c: "\<And>c r. ws (c, r) =
        (if 2 \<le> r \<and> r < 2 + length stocks \<and> r \<le> TotalRows \<and> 1 \<le> c \<and> c < 7
         then Some (cell_form (excelize w) (rowData (stocks ! (r - 2)) ! (c - 1)))
         else put_row Map.empty 1 1 (map StrVal headers) (c, r))"
    by blast
  have len: "length headers = 6" by (simp add: headers_def)
  have "workbook w stocks = [(sheetName, ws)]"
    by (simp only: workbook_def headers_file w)
  moreover have "ws (c, r) =
        (if 2 \<le> r \<and> r < 2 + length stocks \<and> r \<le> TotalRows \<and> 1 \<le> c \<and> c < 7
         then Some (cell_form (excelize w) (rowData (stocks ! (r - 2)) ! (c - 1)))
         else if r = 1 \<and> 1 \<le> c \<and> c < 7 then Some (StrVal (headers ! (c - 1)))
         else None)" for c r
    by (auto simp: c put_row_apply len)
  ultimately show ?thesis by blast
qed

lemma workbook_cell:
  "GetCell (workbook w stocks) sheetName (c, r) =
     (if 2 \<le> r \<and> r < 2 + length stocks \<and> r \<le> TotalRows \<and> 1 \<le> c \<and> c < 7
      then Some (cell_form (excelize w) (rowData (stocks ! (r - 2)) ! (c - 1)))
      else if r = 1 \<and> 1 \<le> c \<and> c < 7 then Some (StrVal (headers ! (c - 1)))
      else None)"
proof -
  from workbook_shape [of w stocks] obtain ws where
    "workbook w stocks = [(sheetName, ws)]"
    "\<And>c r. ws (c, r) =
        (if 2 \<le> r \<and> r < 2 + length stocks \<and> r \<le> TotalRows \<and> 1 \<le> c \<and> c < 7
         then Some (cell_form (excelize w) (rowData (stocks ! (r - 2)) ! (c - 1)))
         else if r = 1 \<and> 1 \<le> c \<and> c < 7 then Some (StrVal (headers ! (c - 1)))
         else None)"
    by blast
  then show ?thesis by (simp only: GetCell_single)
qed

lemma workbook_sheets: "map fst (workbook w stocks) = [sheetName]"
  using workbook_shape [of w stocks] by auto

lemma TotalRows_pos: "1 \<le> TotalRows"
  by (simp add: TotalRows_def)

lemma rows_of_sheet:
  fixes ws :: "nat \<times> nat \<Rightarrow> 'b option"
  assumes c: "\<And>c r. ws (c, r) =
        (if 2 \<le> r \<and> r < 2 + n \<and> r \<le> TotalRows \<and> 1 \<le> c \<and> c < 7
         then Some (g (c, r))
         else if r = 1 \<and> 1 \<le> c \<and> c < 7 then Some (h c)
         else None)"
  shows "snd ` dom ws = {1..min (n + 1) TotalRows}"
proof (rule set_eqI)
  fix r
  show "r \<in> snd ` dom ws \<longleftrightarrow> r \<in> {1..min (n + 1) TotalRows}"
  proof
    assume "r \<in> snd ` dom ws"
    then obtain col v where "ws (col, r) = Some v" by auto
    then show "r \<in> {1..min (n + 1) TotalRows}"
      using c [of col r] TotalRows_pos by (auto split: if_splits)
  next
    assume "r \<in> {1..min (n + 1) TotalRows}"
    then have "ws (1, r) \<noteq> None" by (auto simp: c)
    then have "(1, r) \<in> dom ws" by (simp add: dom_def)
    then show "r \<in> snd ` dom ws" by force
  qed
qed

lemma workbook_rows:
  "row_numbers (workbook w stocks) sheetName = {1..min (length stocks + 1) TotalRows}"
proof -
  from workbook_shape [of w stocks] obtain ws where
    wb: "workbook w stocks = [(sheetName, ws)]" and
    c: "\<And>c r. ws (c, r) =
        (if 2 \<le> r \<and> r < 2 + length stocks \<and> r \<le> TotalRows \<and> 1 \<le> c \<and> c < 7
         then Some (cell_form (excelize w) (rowData (stocks ! (r - 2)) ! (c - 1)))
         else if r = 1 \<and> 1 \<le> c \<and> c < 7 then Some (StrVal (headers ! (c - 1)))
         else None)"
    by blast
  have "snd ` dom ws = {1..min (length stocks + 1) TotalRows}"
    by (rule rows_of_sheet [where g = "\<lambda>(c, r). cell_form (excelize w) (rowData (stocks ! (r - 2)) ! (c - 1))"
          and h = "\<lambda>c. StrVal (headers ! (c - 1))"]) (simp add: c)
  then show ?thesis by (simp add: row_numbers_def wb)
qed

lemma stream_workbook_shape:
  assumes "length stocks + 1 \<le> TotalRows"
  shows "\<exists>ws. stream_workbook w stocks = Inr [(sheetName, ws)] \<and>
     (\<forall>c r. ws (c, r) =
        (if 2 \<le> r \<and> r < 2 + length stocks \<and> 1 \<le> c \<and> c < 7
         then Some (stream_form (excelize w) (rowData (stocks ! (r - 2)) ! (c - 1)))
         else if r = 1 \<and> 1 \<le> c \<and> c < 7 then Some (StrVal (headers ! (c - 1)))
         else None))"
proof -
  define sw1 where "sw1 = \<lparr>sw_sheet = sheetName, sw_rows = put_row Map.empty 1 1 (map StrVal headers), sw_last = 1\<rparr>"
  have f: "(if GetSheetName NewFile 0 \<noteq> sheetName
            then SetSheetName NewFile (GetSheetName NewFile 0) sheetName else NewFile) = [(sheetName, Map.empty)]"
    by (simp add: GetSheetName_def NewFile_def SetSheetName_def has_sheet_def sheetName_def)
  have nsw: "NewStreamWriter [(sheetName, Map.empty)] sheetName =
             Inr \<lparr>sw_sheet = sheetName, sw_rows = Map.empty, sw_last = 0\<rparr>"
    by (simp add: NewStreamWriter_def has_sheet_def)
  have hdr: "SetRow (excelize w) \<lparr>sw_sheet = sheetName, sw_rows = Map.empty, sw_last = 0\<rparr> ''A1''
      (map StrVal headers) = Inr sw1"
    by (simp add: SetRow_def A1_cell sw1_def header_forms del: map_map)
  have "sw_last sw1 < 0 + 2" and "0 + 1 + length stocks \<le> TotalRows"
    using assms by (simp_all add: sw1_def)
  from stream_stocks_cells [OF this, of w, unfolded add_0] obtain sw2 where
    loop: "stream_stocks w 0 stocks sw1 = Inr sw2" and sh: "sw_sheet sw2 = sw_sheet sw1"
    and c: "\<And>c r. sw_rows sw2 (c, r) =
        (if 2 \<le> r \<and> r < 2 + length stocks \<and> 1 \<le> c \<and> c < 7
         then Some (stream_form (excelize w) (rowData (stocks ! (r - 2)) ! (c - 1)))
         else sw_rows sw1 (c, r))"
    by blast
  have fl: "Flush [(sheetName, Map.empty)] sw2 = Inr [(sheetName, sw_rows sw2)]"
    using sh by (simp add: Flush_def map_sheet_def sw1_def)
  have len: "length headers = 6" by (simp add: headers_def)
  have "stream_workbook w stocks = Inr [(sheetName, sw_rows sw2)]"
    by (simp add: stream_workbook_def Let_def f nsw hdr loop fl)
  moreover have "sw_rows sw2 (c, r) =
        (if 2 \<le> r \<and> r < 2 + length stocks \<and> 1 \<le> c \<and> c < 7
         then Some (stream_form (excelize w) (rowData (stocks ! (r - 2)) ! (c - 1)))
         else if r = 1 \<and> 1 \<le> c \<and> c < 7 then Some (StrVal (headers ! (c - 1)))
         else None)" for c r
    by (auto simp: c sw1_def put_row_apply len)
  ultimately show ?thesis by blast
qed

lemma stream_workbook_beyond:
  assumes "TotalRows < length stocks + 1"
  shows "stream_workbook w stocks =
     Inl (''failed to write row '' @ Sprintf_d (int TotalRows + 1) @ '': '' @ max_rows_error)"
proof -
  define sw1 where "sw1 = \<lparr>sw_sheet = sheetName, sw_rows = put_row Map.empty 1 1 (map StrVal headers), sw_last = 1\<rparr>"
  have f: "(if GetSheetName NewFile 0 \<noteq> sheetName
            then SetSheetName NewFile (GetSheetName NewFile 0) sheetName else NewFile) = [(sheetName, Map.empty)]"
    by (simp add: GetSheetName_def NewFile_def SetSheetName_def has_sheet_def sheetName_def)
  have nsw: "NewStreamWriter [(sheetName, Map.empty)] sheetName =
             Inr \<lparr>sw_sheet = sheetName, sw_rows = Map.empty, sw_last = 0\<rparr>"
    by (simp add: NewStreamWriter_def has_sheet_def)
  have hdr: "SetRow (excelize w) \<lparr>sw_sheet = sheetName, sw_rows = Map.empty, sw_last = 0\<rparr> ''A1''
      (map StrVal headers) = Inr sw1"
    by (simp add: SetRow_def A1_cell sw1_def header_forms del: map_map)
  have "sw_last sw1 < 0 + 2" "0 + 1 \<le> TotalRows" "TotalRows < 0 + 1 + length stocks"
    using assms TotalRows_pos by (simp_all add: sw1_def)
  from stream_stocks_beyond [OF this, of w] have
    loop: "stream_stocks w 0 stocks sw1 =
       Inl (''failed to write row '' @ Sprintf_d (int TotalRows + 1) @ '': '' @ max_rows_error)" .
  show ?thesis
    by (simp add: stream_workbook_def Let_def f nsw hdr loop)
qed

lemma stream_eq_workbook:
  assumes "length stocks + 1 \<le> TotalRows"
    and "\<forall>s \<in> set stocks. \<forall>v \<in> set (rowData s). cell_form (excelize w) v = stream_form (excelize w) v"
  shows "stream_workbook w stocks = Inr (workbook w stocks)"
proof -
  from stream_workbook_shape [OF assms(1), of w] obtain ws' where
    s: "stream_workbook w stocks = Inr [(sheetName, ws')]" and
    c': "\<And>c r. ws' (c, r) =
        (if 2 \<le> r \<and> r < 2 + length stocks \<and> 1 \<le> c \<and> c < 7
         then Some (stream_form (excelize w) (rowData (stocks ! (r - 2)) ! (c - 1)))
         else if r = 1 \<and> 1 \<le> c \<and> c < 7 then Some (StrVal (headers ! (c - 1)))
         else None)"
    by blast
  from workbook_shape [of w stocks] obtain ws where
    m: "workbook w stocks = [(sheetName, ws)]" and
    c: "\<And>c r. ws (c, r) =
        (if 2 \<le> r \<and> r < 2 + length stocks \<and> r \<le> TotalRows \<and> 1 \<le> c \<and> c < 7
         then Some (cell_form (excelize w) (rowData (stocks ! (r - 2)) ! (c - 1)))
         else if r = 1 \<and> 1 \<le> c \<and> c < 7 then Some (StrVal (headers ! (c - 1)))
         else None)"
    by blast
  have same: "cell_form (excelize w) (rowData (stocks ! k) ! j) = stream_form (excelize w) (rowData (stocks ! k) ! j)"
    if "k < length stocks" "j < 6" for k j
  proof -
    have "stocks ! k \<in> set stocks" using that(1) by simp
    moreover have "rowData (stocks ! k) ! j \<in> set (rowData (stocks ! k))"
      using that(2) by (intro nth_mem) (simp add: rowData_def)
    ultimately show ?thesis using assms(2) by blast
  qed
  have "ws p = ws' p" for p
  proof (cases p)
    case (Pair col r)
    show ?thesis
    proof (cases "2 \<le> r \<and> r < 2 + length stocks \<and> 1 \<le> col \<and> col < 7")
      case True
      then have "r - 2 < length stocks" "col - 1 < 6" "r \<le> TotalRows"
        using assms(1) by auto
      with True same [of "r - 2" "col - 1"] show ?thesis
        unfolding Pair c c' by simp
    next
      case False
      then show ?thesis unfolding Pair c c' by auto
    qed
  qed
  then have "ws = ws'" by (rule ext)
  with s m show ?thesis by simp
qed

lemma null_members_decode:
  "\<forall>m \<in> set ms. fold_equal (fst m) ''response'' \<longrightarrow> snd m = JNull \<Longrightarrow>
   foldM decode_response_member \<lparr>Response = []\<rparr> ms = Inr \<lparr>Response = []\<rparr>"
  by (induction ms) (auto simp: decode_response_member_def)

lemma digit_chars:
  "digit_char 0 = CHR ''0''" "digit_char 1 = CHR ''1''" "digit_char 2 = CHR ''2''"
  "digit_char 3 = CHR ''3''" "digit_char 4 = CHR ''4''" "digit_char 5 = CHR ''5''"
  "digit_char 6 = CHR ''6''" "digit_char 7 = CHR ''7''" "digit_char 8 = CHR ''8''"
  "digit_char 9 = CHR ''9''" "digit_char (Suc 0) = CHR ''1''"
  by code_simp+

lemma Sprintf_limit: "Sprintf_d (int TotalRows + 1) = ''1048577''"
  by (simp add: TotalRows_def Sprintf_d_def fmt_uint.simps digit_chars)

lemma Sprintf_404: "Sprintf_d 404 = ''404''"
  by (simp add: Sprintf_d_def fmt_uint.simps digit_chars)

lemma example_plain: "list_all plain_value (rowData example_stock)"
  by (simp add: rowData_def example_stock_def plain_text_def plain_char_def is_letter_def
      is_digit_def finite_float64_def)

lemma plain_row_forms:
  assumes "list_all plain_value vs"
  shows "map (cell_form L) vs = vs" "map (stream_form L) vs = vs"
  using assms by (induction vs) (simp_all add: cell_form_def stream_form_def)

lemma data_row_cells:
  assumes "i < length stocks" "i + 2 \<le> TotalRows"
  shows "map (\<lambda>c. GetCell (workbook w stocks) sheetName (c, i + 2)) [1, 2, 3, 4, 5, 6] =
           map (Some \<circ> cell_form (excelize w)) (rowData (stocks ! i))"
  using assms by (simp add: workbook_cell rowData_def)

lemma data_row_columns:
  "i < length stocks \<Longrightarrow> i + 2 \<le> TotalRows \<Longrightarrow>
   {c. GetCell (workbook w stocks) sheetName (c, i + 2) \<noteq> None} = {1..6}"
  by (auto simp: workbook_cell)

lemma header_row_columns:
  "{c. GetCell (workbook w stocks) sheetName (c, 1) \<noteq> None} = {1..6}"
  by (auto simp: workbook_cell)

lemma stream_workbook_cell:
  assumes "stream_workbook w stocks = Inr f"
  shows "length stocks + 1 \<le> TotalRows \<and>
     GetCell f sheetName (c, r) =
       (if 2 \<le> r \<and> r < 2 + length stocks \<and> 1 \<le> c \<and> c < 7
        then Some (stream_form (excelize w) (rowData (stocks ! (r - 2)) ! (c - 1)))
        else if r = 1 \<and> 1 \<le> c \<and> c < 7 then Some (StrVal (headers ! (c - 1)))
        else None)"
proof -
  have within: "length stocks + 1 \<le> TotalRows"
  proof (rule ccontr)
    assume "\<not> length stocks + 1 \<le> TotalRows"
    then have "TotalRows < length stocks + 1" by simp
    from stream_workbook_beyond [OF this, of w] assms show False by simp
  qed
  from stream_workbook_shape [OF within, of w] assms obtain ws where
    "f = [(sheetName, ws)]"
    "\<And>c r. ws (c, r) =
        (if 2 \<le> r \<and> r < 2 + length stocks \<and> 1 \<le> c \<and> c < 7
         then Some (stream_form (excelize w) (rowData (stocks ! (r - 2)) ! (c - 1)))
         else if r = 1 \<and> 1 \<le> c \<and> c < 7 then Some (StrVal (headers ! (c - 1)))
         else None)"
    by auto
  with within show ?thesis by (simp only: GetCell_single simp_thms)
qed

lemma stream_workbook_exists:
  "length stocks + 1 \<le> TotalRows \<Longrightarrow> \<exists>f. stream_workbook w stocks = Inr f"
  using stream_workbook_shape [of stocks w] by blast

lemma stream_workbook_sheets:
  assumes "stream_workbook w stocks = Inr f"
  shows "map fst f = [sheetName]"
proof -
  from stream_workbook_cell [OF assms] have "length stocks + 1 \<le> TotalRows" by simp
  from stream_workbook_shape [OF this, of w] assms show ?thesis by auto
qed

lemma stream_workbook_rows:
  assumes "stream_workbook w stocks = Inr f"
  shows "row_numbers f sheetName = {1..length stocks + 1}"
proof -
  from stream_workbook_cell [OF assms] have within: "length stocks + 1 \<le> TotalRows" by simp
  from stream_workbook_shape [OF within, of w] assms obtain ws where
    f: "f = [(sheetName, ws)]" and
    c: "\<And>c r. ws (c, r) =
        (if 2 \<le> r \<and> r < 2 + length stocks \<and> 1 \<le> c \<and> c < 7
         then Some (stream_form (excelize w) (rowData (stocks ! (r - 2)) ! (c - 1)))
         else if r = 1 \<and> 1 \<le> c \<and> c < 7 then Some (StrVal (headers ! (c - 1)))
         else None)"
    by auto
  have "snd ` dom ws = {1..min (length stocks + 1) TotalRows}"
    by (rule rows_of_sheet [where g = "\<lambda>(c, r). stream_form (excelize w) (rowData (stocks ! (r - 2)) ! (c - 1))"
          and h = "\<lambda>c. StrVal (headers ! (c - 1))"]) (use within in \<open>auto simp: c\<close>)
  with within show ?thesis by (simp add: row_numbers_def f min_def)
qed

lemma stream_row_cells:
  assumes "stream_workbook w stocks = Inr f" "i < length stocks"
  shows "map (\<lambda>c. GetCell f sheetName (c, i + 2)) [1, 2, 3, 4, 5, 6] =
           map (Some \<circ> stream_form (excelize w)) (rowData (stocks ! i))"
    and "{c. GetCell f sheetName (c, i + 2) \<noteq> None} = {1..6}"
  using assms(2) by (auto simp: stream_workbook_cell [OF assms(1)] rowData_def)

lemma stream_header_columns:
  assumes "stream_workbook w stocks = Inr f"
  shows "{c. GetCell f sheetName (c, 1) \<noteq> None} = {1..6}"
  by (auto simp: stream_workbook_cell [OF assms])

lemma save_workbook_ok:
  "os_MkdirAll w (filepath_Dir w (filePath e)) = None \<Longrightarrow> file_SaveAs w (filePath e) f = None \<Longrightarrow>
   save_workbook w e f =
     (None, [EvMkdirAll (filepath_Dir w (filePath e)), EvSaveAs (filePath e) f,
             EvPrintln (''Excel file saved at: '' @ filePath e @ [CHR 0x0A])])"
  by (simp add: save_workbook_def)

lemma save_workbook_mkdir_error:
  "os_MkdirAll w (filepath_Dir w (filePath e)) = Some err \<Longrightarrow>
   save_workbook w e f =
     (Some (''failed to create directory: '' @ err), [EvMkdirAll (filepath_Dir w (filePath e))])"
  by (simp add: save_workbook_def)

lemma save_workbook_nil_iff:
  "fst (save_workbook w e f) = None \<longleftrightarrow>
     os_MkdirAll w (filepath_Dir w (filePath e)) = None \<and> file_SaveAs w (filePath e) f = None"
  by (simp add: save_workbook_def Let_def split: option.splits)

lemma save_workbook_first:
  "\<exists>rest. snd (save_workbook w e f) = EvMkdirAll (filepath_Dir w (filePath e)) # rest"
  by (simp add: save_workbook_def Let_def split: option.splits)

lemma save_workbook_saves:
  "os_MkdirAll w (filepath_Dir w (filePath e)) = None \<Longrightarrow>
   \<exists>rest. snd (save_workbook w e f) =
     EvMkdirAll (filepath_Dir w (filePath e)) # EvSaveAs (filePath e) f # rest"
  by (simp add: save_workbook_def Let_def split: option.splits)

lemma save_workbook_saved:
  "EvSaveAs p g \<in> set (snd (save_workbook w e f)) \<Longrightarrow>
   os_MkdirAll w (filepath_Dir w (filePath e)) = None \<and> p = filePath e \<and> g = f"
  by (simp add: save_workbook_def Let_def split: option.splits)

lemma writer_saves:
  "os_MkdirAll w (filepath_Dir w (filePath e)) = None \<Longrightarrow>
   \<exists>rest. snd (GenerateExcelFile w e stocks) =
     EvMkdirAll (filepath_Dir w (filePath e)) # EvSaveAs (filePath e) (workbook w stocks) # rest"
  unfolding GenerateExcelFile_def by (rule save_workbook_saves)

lemma stream_writer_saves:
  "stream_workbook w stocks = Inr f \<Longrightarrow> os_MkdirAll w (filepath_Dir w (filePath e)) = None \<Longrightarrow>
   \<exists>rest. snd (GenerateExcelFile_stream w e stocks) =
     EvMkdirAll (filepath_Dir w (filePath e)) # EvSaveAs (filePath e) f # rest"
  by (simp add: GenerateExcelFile_stream_def save_workbook_saves)

lemma stream_writer_beyond:
  "TotalRows < length stocks + 1 \<Longrightarrow>
   GenerateExcelFile_stream w e stocks =
     (Some (''failed to write row '' @ Sprintf_d (int TotalRows + 1) @ '': '' @ max_rows_error), [])"
  by (simp add: GenerateExcelFile_stream_def stream_workbook_beyond)

lemma stream_writer_saved:
  "EvSaveAs p g \<in> set (snd (GenerateExcelFile_stream w e stocks)) \<Longrightarrow>
   stream_workbook w stocks = Inr g \<and> os_MkdirAll w (filepath_Dir w (filePath e)) = None \<and> p = filePath e"
  by (cases "stream_workbook w stocks")
    (auto simp: GenerateExcelFile_stream_def dest: save_workbook_saved)

lemma big_writer:
  assumes "length stocks = 1048576"
  shows "GetCell (workbook w stocks) sheetName (1, 1048575 + 2) = None"
    and "row_numbers (workbook w stocks) sheetName = {1..1048576}"
    and "GenerateExcelFile_stream w e stocks =
          (Some ''failed to write row 1048577: row number exceeds maximum limit'', [])"
proof -
  show "GetCell (workbook w stocks) sheetName (1, 1048575 + 2) = None"
    using assms by (simp add: workbook_cell TotalRows_def)
  show "row_numbers (workbook w stocks) sheetName = {1..1048576}"
    using assms by (simp add: workbook_rows TotalRows_def)
  have "TotalRows < length stocks + 1" using assms by (simp add: TotalRows_def)
  from stream_writer_beyond [OF this, of w e] show "GenerateExcelFile_stream w e stocks =
          (Some ''failed to write row 1048577: row number exceeds maximum limit'', [])"
    by (simp add: Sprintf_limit max_rows_error_def)
qed

lemma example_env_simps:
  "os_MkdirAll (example_env a m) d = m" "file_SaveAs (example_env a m) p f = None"
  "filepath_Dir (example_env a m) ''data/stock_data.xlsx'' = ''data''"
  "filepath_Join (example_env a m) dataDir excelFile = ''data/stock_data.xlsx''"
  "http_Get (example_env a m) url = a"
  by (simp_all add: example_env_def dataDir_def excelFile_def)

lemma example_writer:
  "GenerateExcelFile (example_env a None) \<lparr>filePath = ''data/stock_data.xlsx''\<rparr> stocks =
     (None, [EvMkdirAll ''data'',
             EvSaveAs ''data/stock_data.xlsx'' (workbook (example_env a None) stocks),
             EvPrintln (''Excel file saved at: data/stock_data.xlsx'' @ [CHR 0x0A])])"
  by (simp add: GenerateExcelFile_def save_workbook_def example_env_simps)

section \<open>What the writers save\<close>

text \<open>
  C1, amended. For every list of stock entries and every position \<open>i\<close> in it (counted
  from 0) whose row \<open>i + 2\<close> lies within the sheet, that is \<open>i + 2 \<le> 1048576\<close>, the
  workbook the in-memory writer hands to \<open>SaveAs\<close> holds in row \<open>i + 2\<close>, in the columns
  A to F, what the library stores for the six fields of entry \<open>i\<close>, which the writer passes
  unchanged and in the order ticker, ticker name, latest price (as strings), points
  change, percentage change, traded of market cap (as floats); the row has no other cell.
  Where the six values are plain text and finite floats the cells hold exactly these
  values. For a list of at most 1048575 entries the same holds of the workbook the
  streaming writer hands to \<open>SaveAs\<close>.
\<close>

theorem data_row_content:
  assumes "i < length stocks" and "i + 2 \<le> TotalRows"
  shows
   "GetCell (workbook w stocks) sheetName (1, i + 2) = Some (cell_form (excelize w) (StrVal (Ticker (stocks ! i)))) \<and>
    GetCell (workbook w stocks) sheetName (2, i + 2) = Some (cell_form (excelize w) (StrVal (TickerName (stocks ! i)))) \<and>
    GetCell (workbook w stocks) sheetName (3, i + 2) = Some (cell_form (excelize w) (StrVal (LatestPrice (stocks ! i)))) \<and>
    GetCell (workbook w stocks) sheetName (4, i + 2) = Some (cell_form (excelize w) (FloatVal (PointsChange (stocks ! i)))) \<and>
    GetCell (workbook w stocks) sheetName (5, i + 2) = Some (cell_form (excelize w) (FloatVal (PercentageChange (stocks ! i)))) \<and>
    GetCell (workbook w stocks) sheetName (6, i + 2) = Some (cell_form (excelize w) (FloatVal (TradedOfMktCap (stocks ! i)))) \<and>
    {c. GetCell (workbook w stocks) sheetName (c, i + 2) \<noteq> None} = {1..6} \<and>
    (list_all plain_value (rowData (stocks ! i)) \<longrightarrow>
       map (\<lambda>c. GetCell (workbook w stocks) sheetName (c, i + 2)) [1, 2, 3, 4, 5, 6] =
         map Some (rowData (stocks ! i))) \<and>
    (os_MkdirAll w (filepath_Dir w (filePath e)) = None \<longrightarrow>
       (\<exists>rest. snd (GenerateExcelFile w e stocks) =
          EvMkdirAll (filepath_Dir w (filePath e)) # EvSaveAs (filePath e) (workbook w stocks) # rest)) \<and>
    (length stocks + 1 \<le> TotalRows \<longrightarrow>
       (\<exists>f. stream_workbook w stocks = Inr f \<and>
          GetCell f sheetName (1, i + 2) = Some (stream_form (excelize w) (StrVal (Ticker (stocks ! i)))) \<and>
          GetCell f sheetName (2, i + 2) = Some (stream_form (excelize w) (StrVal (TickerName (stocks ! i)))) \<and>
          GetCell f sheetName (3, i + 2) = Some (stream_form (excelize w) (StrVal (LatestPrice (stocks ! i)))) \<and>
          GetCell f sheetName (4, i + 2) = Some (stream_form (excelize w) (FloatVal (PointsChange (stocks ! i)))) \<and>
          GetCell f sheetName (5, i + 2) = Some (stream_form (excelize w) (FloatVal (PercentageChange (stocks ! i)))) \<and>
          GetCell f sheetName (6, i + 2) = Some (stream_form (excelize w) (FloatVal (TradedOfMktCap (stocks ! i)))) \<and>
          {c. GetCell f sheetName (c, i + 2) \<noteq> None} = {1..6} \<and>
          (list_all plain_value (rowData (stocks ! i)) \<longrightarrow>
             map (\<lambda>c. GetCell f sheetName (c, i + 2)) [1, 2, 3, 4, 5, 6] = map Some (rowData (stocks ! i))) \<and>
          (os_MkdirAll w (filepath_Dir w (filePath e)) = None \<longrightarrow>
             (\<exists>rest. snd (GenerateExcelFile_stream w e stocks) =
                EvMkdirAll (filepath_Dir w (filePath e)) # EvSaveAs (filePath e) f # rest))))"
proof -
  have mem: "GetCell (workbook w stocks) sheetName (1, i + 2) = Some (cell_form (excelize w) (StrVal (Ticker (stocks ! i))))"
    "GetCell (workbook w stocks) sheetName (2, i + 2) = Some (cell_form (excelize w) (StrVal (TickerName (stocks ! i))))"
    "GetCell (workbook w stocks) sheetName (3, i + 2) = Some (cell_form (excelize w) (StrVal (LatestPrice (stocks ! i))))"
    "GetCell (workbook w stocks) sheetName (4, i + 2) = Some (cell_form (excelize w) (FloatVal (PointsChange (stocks ! i))))"
    "GetCell (workbook w stocks) sheetName (5, i + 2) = Some (cell_form (excelize w) (FloatVal (PercentageChange (stocks ! i))))"
    "GetCell (workbook w stocks) sheetName (6, i + 2) = Some (cell_form (excelize w) (FloatVal (TradedOfMktCap (stocks ! i))))"
    using assms by (simp_all add: workbook_cell rowData_def)
  have plain: "map (\<lambda>c. GetCell (workbook w stocks) sheetName (c, i + 2)) [1, 2, 3, 4, 5, 6] =
         map Some (rowData (stocks ! i))" if "list_all plain_value (rowData (stocks ! i))"
    using data_row_cells [OF assms, of w] plain_row_forms(1) [OF that, of "excelize w"]
    by (metis map_map)
  have stream: "\<exists>f. stream_workbook w stocks = Inr f \<and>
          GetCell f sheetName (1, i + 2) = Some (stream_form (excelize w) (StrVal (Ticker (stocks ! i)))) \<and>
          GetCell f sheetName (2, i + 2) = Some (stream_form (excelize w) (StrVal (TickerName (stocks ! i)))) \<and>
          GetCell f sheetName (3, i + 2) = Some (stream_form (excelize w) (StrVal (LatestPrice (stocks ! i)))) \<and>
          GetCell f sheetName (4, i + 2) = Some (stream_form (excelize w) (FloatVal (PointsChange (stocks ! i)))) \<and>
          GetCell f sheetName (5, i + 2) = Some (stream_form (excelize w) (FloatVal (PercentageChange (stocks ! i)))) \<and>
          GetCell f sheetName (6, i + 2) = Some (stream_form (excelize w) (FloatVal (TradedOfMktCap (stocks ! i)))) \<and>
          {c. GetCell f sheetName (c, i + 2) \<noteq> None} = {1..6} \<and>
          (list_all plain_value (rowData (stocks ! i)) \<longrightarrow>
             map (\<lambda>c. GetCell f sheetName (c, i + 2)) [1, 2, 3, 4, 5, 6] = map Some (rowData (stocks ! i))) \<and>
          (os_MkdirAll w (filepath_Dir w (filePath e)) = None \<longrightarrow>
             (\<exists>rest. snd (GenerateExcelFile_stream w e stocks) =
                EvMkdirAll (filepath_Dir w (filePath e)) # EvSaveAs (filePath e) f # rest))"
    if within: "length stocks + 1 \<le> TotalRows"
  proof -
    from stream_workbook_exists [OF within] obtain f where f: "stream_workbook w stocks = Inr f"
      by blast
    have cells: "GetCell f sheetName (1, i + 2) = Some (stream_form (excelize w) (StrVal (Ticker (stocks ! i))))"
      "GetCell f sheetName (2, i + 2) = Some (stream_form (excelize w) (StrVal (TickerName (stocks ! i))))"
      "GetCell f sheetName (3, i + 2) = Some (stream_form (excelize w) (StrVal (LatestPrice (stocks ! i))))"
      "GetCell f sheetName (4, i + 2) = Some (stream_form (excelize w) (FloatVal (PointsChange (stocks ! i))))"
      "GetCell f sheetName (5, i + 2) = Some (stream_form (excelize w) (FloatVal (PercentageChange (stocks ! i))))"
      "GetCell f sheetName (6, i + 2) = Some (stream_form (excelize w) (FloatVal (TradedOfMktCap (stocks ! i))))"
      using assms(1) by (simp_all add: stream_workbook_cell [OF f] rowData_def)
    have p: "map (\<lambda>c. GetCell f sheetName (c, i + 2)) [1, 2, 3, 4, 5, 6] = map Some (rowData (stocks ! i))"
      if "list_all plain_value (rowData (stocks ! i))"
      using stream_row_cells(1) [OF f assms(1)] plain_row_forms(2) [OF that, of "excelize w"]
      by (metis map_map)
    show ?thesis
      by (intro exI [of _ f] conjI impI f cells stream_row_cells(2) [OF f assms(1)] p
          stream_writer_saves [OF f]; assumption)
  qed
  show ?thesis
    by (intro conjI impI mem data_row_columns [OF assms] plain writer_saves stream; assumption)
qed


theorem data_row_content_witness:
  "0 < length [example_stock] \<and> 0 + 2 \<le> TotalRows \<and>
   list_all plain_value (rowData ([example_stock] ! 0)) \<and>
   os_MkdirAll (example_env (Inl ''down'') None)
     (filepath_Dir (example_env (Inl ''down'') None) (filePath \<lparr>filePath = ''data/stock_data.xlsx''\<rparr>)) = None \<and>
   map (\<lambda>c. GetCell (workbook (example_env (Inl ''down'') None) [example_stock]) sheetName (c, 0 + 2))
     [1, 2, 3, 4, 5, 6] =
     [Some (StrVal ''ABC''), Some (StrVal ''Alpha''), Some (StrVal ''120.5''),
      Some (FloatVal 0x3FF3333333333333), Some (FloatVal 0x3FE0000000000000),
      Some (FloatVal 0x4008CCCCCCCCCCCD)] \<and>
   (\<exists>rest. snd (GenerateExcelFile (example_env (Inl ''down'') None)
        \<lparr>filePath = ''data/stock_data.xlsx''\<rparr> [example_stock]) =
      EvMkdirAll ''data'' #
      EvSaveAs ''data/stock_data.xlsx'' (workbook (example_env (Inl ''down'') None) [example_stock]) # rest)"
proof -
  let ?w = "example_env (Inl ''down'') None"
  let ?e = "\<lparr>filePath = ''data/stock_data.xlsx''\<rparr>"
  have h1: "0 < length [example_stock]" by simp
  have h2: "0 + 2 \<le> TotalRows" by (simp add: TotalRows_def)
  have h3: "list_all plain_value (rowData ([example_stock] ! 0))"
    using example_plain by simp
  have h4: "os_MkdirAll ?w (filepath_Dir ?w (filePath ?e)) = None"
    by (simp add: example_env_simps)
  note t = data_row_content [OF h1 h2, of ?w ?e]
  from t h3 have "map (\<lambda>c. GetCell (workbook ?w [example_stock]) sheetName (c, 0 + 2)) [1, 2, 3, 4, 5, 6] =
      map Some (rowData ([example_stock] ! 0))"
    by (elim conjE) (erule mp)
  then have cells: "map (\<lambda>c. GetCell (workbook ?w [example_stock]) sheetName (c, 0 + 2)) [1, 2, 3, 4, 5, 6] =
     [Some (StrVal ''ABC''), Some (StrVal ''Alpha''), Some (StrVal ''120.5''),
      Some (FloatVal 0x3FF3333333333333), Some (FloatVal 0x3FE0000000000000),
      Some (FloatVal 0x4008CCCCCCCCCCCD)]"
    by (simp only: nth_Cons_0 rowData_def example_stock_def) simp
  from t h4 have "\<exists>rest. snd (GenerateExcelFile ?w ?e [example_stock]) =
      EvMkdirAll (filepath_Dir ?w (filePath ?e)) # EvSaveAs (filePath ?e) (workbook ?w [example_stock]) # rest"
    by (elim conjE) (erule mp)
  then have saves: "\<exists>rest. snd (GenerateExcelFile ?w ?e [example_stock]) =
      EvMkdirAll ''data'' # EvSaveAs ''data/stock_data.xlsx'' (workbook ?w [example_stock]) # rest"
    by (simp add: example_env_simps)
  from h1 h2 h3 h4 cells saves show ?thesis by (intro conjI)
qed

text \<open>
  Without the bound on the row the statement fails: of 1048576 entries the last one has no
  row in the workbook that the in-memory writer saves, and the writer returns nil.
\<close>

theorem data_row_counterexample:
  "1048575 < length (replicate 1048576 example_stock) \<and>
   GetCell (workbook (example_env (Inl ''down'') None) (replicate 1048576 example_stock)) sheetName
     (1, 1048575 + 2) = None \<and>
   GenerateExcelFile (example_env (Inl ''down'') None) \<lparr>filePath = ''data/stock_data.xlsx''\<rparr>
       (replicate 1048576 example_stock) =
     (None, [EvMkdirAll ''data'',
             EvSaveAs ''data/stock_data.xlsx''
               (workbook (example_env (Inl ''down'') None) (replicate 1048576 example_stock)),
             EvPrintln (''Excel file saved at: data/stock_data.xlsx'' @ [CHR 0x0A])])"
proof -
  have len: "length (replicate 1048576 example_stock) = 1048576" by (rule length_replicate)
  have "1048575 < length (replicate 1048576 example_stock)" unfolding len by simp
  with big_writer(1) [OF len] example_writer show ?thesis by (intro conjI)
qed

text \<open>
  C2, amended. For a list of \<open>N\<close> entries with \<open>N + 1 \<le> 1048576\<close>, the workbook either
  writer hands to \<open>SaveAs\<close> has one sheet, whose non-empty rows are exactly the rows 1 to
  \<open>N + 1\<close>: the header row and one row per entry.
\<close>

theorem row_count:
  assumes "length stocks + 1 \<le> TotalRows"
  shows
   "row_numbers (workbook w stocks) sheetName = {1..length stocks + 1} \<and>
    card (row_numbers (workbook w stocks) sheetName) = length stocks + 1 \<and>
    map fst (workbook w stocks) = [sheetName] \<and>
    (os_MkdirAll w (filepath_Dir w (filePath e)) = None \<longrightarrow>
       (\<exists>rest. snd (GenerateExcelFile w e stocks) =
          EvMkdirAll (filepath_Dir w (filePath e)) # EvSaveAs (filePath e) (workbook w stocks) # rest)) \<and>
    (\<exists>f. stream_workbook w stocks = Inr f \<and>
       row_numbers f sheetName = {1..length stocks + 1} \<and>
       card (row_numbers f sheetName) = length stocks + 1 \<and>
       map fst f = [sheetName] \<and>
       (os_MkdirAll w (filepath_Dir w (filePath e)) = None \<longrightarrow>
          (\<exists>rest. snd (GenerateExcelFile_stream w e stocks) =
             EvMkdirAll (filepath_Dir w (filePath e)) # EvSaveAs (filePath e) f # rest)))"
proof -
  have rows: "row_numbers (workbook w stocks) sheetName = {1..length stocks + 1}"
    using assms by (simp add: workbook_rows min_def)
  then have card: "card (row_numbers (workbook w stocks) sheetName) = length stocks + 1"
    by simp
  from stream_workbook_exists [OF assms] obtain f where f: "stream_workbook w stocks = Inr f"
    by blast
  have srows: "row_numbers f sheetName = {1..length stocks + 1}"
    by (rule stream_workbook_rows [OF f])
  then have scard: "card (row_numbers f sheetName) = length stocks + 1" by simp
  have st: "\<exists>f. stream_workbook w stocks = Inr f \<and>
       row_numbers f sheetName = {1..length stocks + 1} \<and>
       card (row_numbers f sheetName) = length stocks + 1 \<and>
       map fst f = [sheetName] \<and>
       (os_MkdirAll w (filepath_Dir w (filePath e)) = None \<longrightarrow>
          (\<exists>rest. snd (GenerateExcelFile_stream w e stocks) =
             EvMkdirAll (filepath_Dir w (filePath e)) # EvSaveAs (filePath e) f # rest))"
    by (intro exI [of _ f] conjI impI f srows scard stream_workbook_sheets [OF f]
        stream_writer_saves [OF f]; assumption)
  show ?thesis
    by (intro conjI impI rows card workbook_sheets writer_saves st; assumption)
qed

theorem row_count_witness:
  "length [example_stock, example_stock] + 1 \<le> TotalRows \<and>
   card (row_numbers (workbook (example_env (Inl ''down'') None) [example_stock, example_stock]) sheetName) = 3 \<and>
   row_numbers (workbook (example_env (Inl ''down'') None) [example_stock, example_stock]) sheetName = {1, 2, 3}"
proof -
  have h: "length [example_stock, example_stock] + 1 \<le> TotalRows" by (simp add: TotalRows_def)
  have len: "length [example_stock, example_stock] + 1 = 3" by simp
  have rows: "{1..3::nat} = {1, 2, 3}" by auto
  note t = row_count [OF h, of "example_env (Inl ''down'') None" "\<lparr>filePath = ''data/stock_data.xlsx''\<rparr>",
      unfolded len]
  from t have c: "card (row_numbers (workbook (example_env (Inl ''down'') None) [example_stock, example_stock]) sheetName) = 3"
    by (elim conjE)
  from t have r: "row_numbers (workbook (example_env (Inl ''down'') None) [example_stock, example_stock]) sheetName = {1, 2, 3}"
    unfolding rows by (elim conjE)
  from h c r show ?thesis by (intro conjI)
qed

text \<open>
  Without the bound the statement fails: for 1048576 entries the in-memory writer saves a
  sheet of 1048576 rows, and the streaming writer returns an error and saves nothing.
\<close>

theorem row_count_counterexample:
  "length (replicate 1048576 example_stock) = 1048576 \<and>
   card (row_numbers (workbook (example_env (Inl ''down'') None) (replicate 1048576 example_stock)) sheetName)
     = 1048576 \<and>
   GenerateExcelFile (example_env (Inl ''down'') None) \<lparr>filePath = ''data/stock_data.xlsx''\<rparr>
       (replicate 1048576 example_stock) =
     (None, [EvMkdirAll ''data'',
             EvSaveAs ''data/stock_data.xlsx''
               (workbook (example_env (Inl ''down'') None) (replicate 1048576 example_stock)),
             EvPrintln (''Excel file saved at: data/stock_data.xlsx'' @ [CHR 0x0A])]) \<and>
   GenerateExcelFile_stream (example_env (Inl ''down'') None) \<lparr>filePath = ''data/stock_data.xlsx''\<rparr>
       (replicate 1048576 example_stock) =
     (Some ''failed to write row 1048577: row number exceeds maximum limit'', [])"
proof -
  have len: "length (replicate 1048576 example_stock) = 1048576" by (rule length_replicate)
  have "card (row_numbers (workbook (example_env (Inl ''down'') None) (replicate 1048576 example_stock)) sheetName)
     = 1048576"
    unfolding big_writer(2) [OF len] by simp
  with len big_writer(3) [OF len] example_writer show ?thesis by (intro conjI)
qed

lemma header_cells:
  "GetCell (workbook w stocks) sheetName (1, 1) = Some (StrVal ''Ticker'')"
  "GetCell (workbook w stocks) sheetName (2, 1) = Some (StrVal ''Ticker Name'')"
  "GetCell (workbook w stocks) sheetName (3, 1) = Some (StrVal ''Latest Price'')"
  "GetCell (workbook w stocks) sheetName (4, 1) = Some (StrVal ''Points Change'')"
  "GetCell (workbook w stocks) sheetName (5, 1) = Some (StrVal ''Percentage Change'')"
  "GetCell (workbook w stocks) sheetName (6, 1) = Some (StrVal ''Traded Of Mkt Cap'')"
  by (simp_all add: workbook_cell headers_def)

lemma stream_header_cells:
  assumes "stream_workbook w stocks = Inr f"
  shows "GetCell f sheetName (1, 1) = Some (StrVal ''Ticker'') \<and>
    GetCell f sheetName (2, 1) = Some (StrVal ''Ticker Name'') \<and>
    GetCell f sheetName (3, 1) = Some (StrVal ''Latest Price'') \<and>
    GetCell f sheetName (4, 1) = Some (StrVal ''Points Change'') \<and>
    GetCell f sheetName (5, 1) = Some (StrVal ''Percentage Change'') \<and>
    GetCell f sheetName (6, 1) = Some (StrVal ''Traded Of Mkt Cap'') \<and>
    {c. GetCell f sheetName (c, 1) \<noteq> None} = {1..6}"
  by (intro conjI stream_header_columns [OF assms])
    (simp_all add: stream_workbook_cell [OF assms] headers_def)

lemma stream_writer_within:
  assumes "length stocks + 1 \<le> TotalRows"
  shows "\<exists>f. stream_workbook w stocks = Inr f \<and>
       (os_MkdirAll w (filepath_Dir w (filePath e)) = None \<longrightarrow>
          (\<exists>rest. snd (GenerateExcelFile_stream w e stocks) =
             EvMkdirAll (filepath_Dir w (filePath e)) # EvSaveAs (filePath e) f # rest))"
proof -
  from stream_workbook_exists [OF assms] obtain f where f: "stream_workbook w stocks = Inr f"
    by blast
  show ?thesis
    by (intro exI [of _ f] conjI impI f stream_writer_saves [OF f]; assumption)
qed

text \<open>
  C3. For every list of entries, the empty one included, row 1 of the workbook the
  in-memory writer hands to \<open>SaveAs\<close> holds the six labels in the cells A1 to F1, in the
  fixed order, and no other cell; the labels do not depend on the entries. The same holds
  of every workbook the streaming writer hands to \<open>SaveAs\<close>, and it hands one over
  whenever the list has at most 1048575 entries and the directory can be created.
\<close>

theorem header_row:
  "GetCell (workbook w stocks) sheetName (1, 1) = Some (StrVal ''Ticker'') \<and>
   GetCell (workbook w stocks) sheetName (2, 1) = Some (StrVal ''Ticker Name'') \<and>
   GetCell (workbook w stocks) sheetName (3, 1) = Some (StrVal ''Latest Price'') \<and>
   GetCell (workbook w stocks) sheetName (4, 1) = Some (StrVal ''Points Change'') \<and>
   GetCell (workbook w stocks) sheetName (5, 1) = Some (StrVal ''Percentage Change'') \<and>
   GetCell (workbook w stocks) sheetName (6, 1) = Some (StrVal ''Traded Of Mkt Cap'') \<and>
   {c. GetCell (workbook w stocks) sheetName (c, 1) \<noteq> None} = {1..6} \<and>
   (os_MkdirAll w (filepath_Dir w (filePath e)) = None \<longrightarrow>
      (\<exists>rest. snd (GenerateExcelFile w e stocks) =
         EvMkdirAll (filepath_Dir w (filePath e)) # EvSaveAs (filePath e) (workbook w stocks) # rest)) \<and>
   (\<forall>f. stream_workbook w stocks = Inr f \<longrightarrow>
      GetCell f sheetName (1, 1) = Some (StrVal ''Ticker'') \<and>
      GetCell f sheetName (2, 1) = Some (StrVal ''Ticker Name'') \<and>
      GetCell f sheetName (3, 1) = Some (StrVal ''Latest Price'') \<and>
      GetCell f sheetName (4, 1) = Some (StrVal ''Points Change'') \<and>
      GetCell f sheetName (5, 1) = Some (StrVal ''Percentage Change'') \<and>
      GetCell f sheetName (6, 1) = Some (StrVal ''Traded Of Mkt Cap'') \<and>
      {c. GetCell f sheetName (c, 1) \<noteq> None} = {1..6}) \<and>
   (\<forall>path f. EvSaveAs path f \<in> set (snd (GenerateExcelFile_stream w e stocks)) \<longrightarrow>
      stream_workbook w stocks = Inr f) \<and>
   (length stocks + 1 \<le> TotalRows \<longrightarrow>
      (\<exists>f. stream_workbook w stocks = Inr f \<and>
         (os_MkdirAll w (filepath_Dir w (filePath e)) = None \<longrightarrow>
            (\<exists>rest. snd (GenerateExcelFile_stream w e stocks) =
               EvMkdirAll (filepath_Dir w (filePath e)) # EvSaveAs (filePath e) f # rest))))"
proof -
  have a: "\<forall>f. stream_workbook w stocks = Inr f \<longrightarrow>
      GetCell f sheetName (1, 1) = Some (StrVal ''Ticker'') \<and>
      GetCell f sheetName (2, 1) = Some (StrVal ''Ticker Name'') \<and>
      GetCell f sheetName (3, 1) = Some (StrVal ''Latest Price'') \<and>
      GetCell f sheetName (4, 1) = Some (StrVal ''Points Change'') \<and>
      GetCell f sheetName (5, 1) = Some (StrVal ''Percentage Change'') \<and>
      GetCell f sheetName (6, 1) = Some (StrVal ''Traded Of Mkt Cap'') \<and>
      {c. GetCell f sheetName (c, 1) \<noteq> None} = {1..6}"
    by (intro allI impI) (rule stream_header_cells)
  have b: "\<forall>path f. EvSaveAs path f \<in> set (snd (GenerateExcelFile_stream w e stocks)) \<longrightarrow>
      stream_workbook w stocks = Inr f"
    using stream_writer_saved [of _ _ w e stocks] by blast
  show ?thesis
    by (intro conjI impI header_cells header_row_columns writer_saves a b stream_writer_within;
        assumption)
qed

theorem header_row_witness:
  "os_MkdirAll (example_env (Inl ''down'') None)
     (filepath_Dir (example_env (Inl ''down'') None) (filePath \<lparr>filePath = ''data/stock_data.xlsx''\<rparr>)) = None \<and>
   GetCell (workbook (example_env (Inl ''down'') None) []) sheetName (1, 1) = Some (StrVal ''Ticker'') \<and>
   GetCell (workbook (example_env (Inl ''down'') None) [example_stock]) sheetName (6, 1) =
     Some (StrVal ''Traded Of Mkt Cap'') \<and>
   (\<exists>rest. snd (GenerateExcelFile (example_env (Inl ''down'') None)
        \<lparr>filePath = ''data/stock_data.xlsx''\<rparr> []) =
      EvMkdirAll ''data'' #
      EvSaveAs ''data/stock_data.xlsx'' (workbook (example_env (Inl ''down'') None) []) # rest)"
proof -
  let ?w = "example_env (Inl ''down'') None"
  let ?e = "\<lparr>filePath = ''data/stock_data.xlsx''\<rparr>"
  have h: "os_MkdirAll ?w (filepath_Dir ?w (filePath ?e)) = None"
    by (simp add: example_env_simps)
  note t = header_row [of ?w "[]" ?e]
  note u = header_row [of ?w "[example_stock]" ?e]
  from t have c1: "GetCell (workbook ?w []) sheetName (1, 1) = Some (StrVal ''Ticker'')"
    by (elim conjE)
  from u have c6: "GetCell (workbook ?w [example_stock]) sheetName (6, 1) = Some (StrVal ''Traded Of Mkt Cap'')"
    by (elim conjE)
  from t h have "\<exists>rest. snd (GenerateExcelFile ?w ?e []) =
      EvMkdirAll (filepath_Dir ?w (filePath ?e)) # EvSaveAs (filePath ?e) (workbook ?w []) # rest"
    by (elim conjE) (erule mp)
  then have s: "\<exists>rest. snd (GenerateExcelFile ?w ?e []) =
      EvMkdirAll ''data'' # EvSaveAs ''data/stock_data.xlsx'' (workbook ?w []) # rest"
    by (simp add: example_env_simps)
  from h c1 c6 s show ?thesis by (intro conjI)
qed

lemma forms_agree:
  "plain_value v \<or> cell_other L v = stream_other L v \<Longrightarrow> cell_form L v = stream_form L v"
  by (auto simp: cell_form_def stream_form_def)

text \<open>
  C4, amended. For every list of at most 1048575 entries in which each field value is
  plain, or is stored by the library in the same form through \<open>SetCellValue\<close> and through
  the stream writer, the streaming variant builds the workbook of the in-memory variant:
  one sheet of the same name with the same cells. Under the same environment the two writers
  then return the same result and perform the same effects, and so do the two programs
  when this list is what was fetched.
\<close>

theorem variants_agree:
  assumes "length stocks + 1 \<le> TotalRows"
    and "\<forall>s \<in> set stocks. \<forall>v \<in> set (rowData s).
           plain_value v \<or> cell_other (excelize w) v = stream_other (excelize w) v"
  shows "stream_workbook w stocks = Inr (workbook w stocks) \<and>
    map fst (workbook w stocks) = [sheetName] \<and>
    GenerateExcelFile_stream w e stocks = GenerateExcelFile w e stocks \<and>
    (fst (FetchStockData w (NewStockService stockAPIURL)) = Inr stocks \<longrightarrow> main_stream w = main w)"
proof -
  have "\<forall>s \<in> set stocks. \<forall>v \<in> set (rowData s). cell_form (excelize w) v = stream_form (excelize w) v"
    using assms(2) forms_agree by blast
  from stream_eq_workbook [OF assms(1) this] have
    eq: "stream_workbook w stocks = Inr (workbook w stocks)" .
  then have gen: "GenerateExcelFile_stream w e stocks = GenerateExcelFile w e stocks" for e
    by (simp add: GenerateExcelFile_stream_def GenerateExcelFile_def)
  have "main_stream w = main w" if "fst (FetchStockData w (NewStockService stockAPIURL)) = Inr stocks"
    using that by (simp add: main_stream_def main_def main_body_def Let_def gen)
  with eq gen workbook_sheets show ?thesis by blast
qed

theorem variants_agree_witness:
  "length [example_stock] + 1 \<le> TotalRows \<and>
   list_all plain_value (rowData example_stock) \<and>
   stream_workbook (example_env (Inl ''down'') None) [example_stock] =
     Inr (workbook (example_env (Inl ''down'') None) [example_stock]) \<and>
   GenerateExcelFile_stream (example_env (Inl ''down'') None) \<lparr>filePath = ''data/stock_data.xlsx''\<rparr> [example_stock] =
   GenerateExcelFile (example_env (Inl ''down'') None) \<lparr>filePath = ''data/stock_data.xlsx''\<rparr> [example_stock]"
proof -
  let ?w = "example_env (Inl ''down'') None"
  have h1: "length [example_stock] + 1 \<le> TotalRows" by (simp add: TotalRows_def)
  have h2: "\<forall>s \<in> set [example_stock]. \<forall>v \<in> set (rowData s).
           plain_value v \<or> cell_other (excelize ?w) v = stream_other (excelize ?w) v"
    using example_plain by (simp add: list_all_iff)
  note t = variants_agree [OF h1 h2, of "\<lparr>filePath = ''data/stock_data.xlsx''\<rparr>"]
  from t have a: "stream_workbook ?w [example_stock] = Inr (workbook ?w [example_stock])"
    by (elim conjE)
  from t have b: "GenerateExcelFile_stream ?w \<lparr>filePath = ''data/stock_data.xlsx''\<rparr> [example_stock] =
      GenerateExcelFile ?w \<lparr>filePath = ''data/stock_data.xlsx''\<rparr> [example_stock]"
    by (elim conjE)
  from h1 example_plain a b show ?thesis by (intro conjI)
qed

text \<open>
  Without the bound the statement fails: for 1048576 plain entries the in-memory writer
  saves a workbook and returns nil, the streaming writer returns an error and saves nothing.
\<close>

theorem variants_agree_counterexample:
  "list_all plain_value (rowData example_stock) \<and>
   fst (GenerateExcelFile (example_env (Inl ''down'') None) \<lparr>filePath = ''data/stock_data.xlsx''\<rparr>
       (replicate 1048576 example_stock)) = None \<and>
   snd (GenerateExcelFile (example_env (Inl ''down'') None) \<lparr>filePath = ''data/stock_data.xlsx''\<rparr>
       (replicate 1048576 example_stock)) =
     [EvMkdirAll ''data'',
      EvSaveAs ''data/stock_data.xlsx''
        (workbook (example_env (Inl ''down'') None) (replicate 1048576 example_stock)),
      EvPrintln (''Excel file saved at: data/stock_data.xlsx'' @ [CHR 0x0A])] \<and>
   fst (GenerateExcelFile_stream (example_env (Inl ''down'') None) \<lparr>filePath = ''data/stock_data.xlsx''\<rparr>
       (replicate 1048576 example_stock)) =
     Some ''failed to write row 1048577: row number exceeds maximum limit'' \<and>
   snd (GenerateExcelFile_stream (example_env (Inl ''down'') None) \<lparr>filePath = ''data/stock_data.xlsx''\<rparr>
       (replicate 1048576 example_stock)) = []"
proof -
  have len: "length (replicate 1048576 example_stock) = 1048576" by (rule length_replicate)
  show ?thesis
    unfolding big_writer(3) [OF len] example_writer fst_conv snd_conv
    by (intro conjI example_plain refl)
qed

lemma writer_messages_differ:
  "''failed to create directory: '' @ a \<noteq> ''failed to save Excel file: '' @ b"
  "''failed to create directory: '' @ a \<noteq> ''failed to create stream writer: '' @ b"
  "''failed to create directory: '' @ a \<noteq> ''failed to write headers: '' @ b"
  "''failed to create directory: '' @ a \<noteq> ''failed to write row '' @ b"
  "''failed to create directory: '' @ a \<noteq> ''failed to flush stream writer: '' @ b"
  by simp_all

lemma empty_stream: "stream_workbook w [] = Inr (workbook w [])"
  by (rule stream_eq_workbook) (simp_all add: TotalRows_def)

lemma empty_writers: "GenerateExcelFile_stream w e [] = GenerateExcelFile w e []"
  by (simp add: GenerateExcelFile_stream_def GenerateExcelFile_def empty_stream)

text \<open>
  C7. Given no entries, the writer returns an error only if creating the directory or
  saving the file does; when both succeed it returns nil, and the workbook it saves has
  the header row in A1 to F1 and no other cell, hence no data row. Both writers behave
  alike.
\<close>

theorem empty_list_header_only:
  "(fst (GenerateExcelFile w e []) = None \<longleftrightarrow>
      os_MkdirAll w (filepath_Dir w (filePath e)) = None \<and> file_SaveAs w (filePath e) (workbook w []) = None) \<and>
   (fst (GenerateExcelFile_stream w e []) = None \<longleftrightarrow>
      os_MkdirAll w (filepath_Dir w (filePath e)) = None \<and> file_SaveAs w (filePath e) (workbook w []) = None) \<and>
   (os_MkdirAll w (filepath_Dir w (filePath e)) = None \<and> file_SaveAs w (filePath e) (workbook w []) = None \<longrightarrow>
      GenerateExcelFile w e [] =
        (None, [EvMkdirAll (filepath_Dir w (filePath e)), EvSaveAs (filePath e) (workbook w []),
                EvPrintln (''Excel file saved at: '' @ filePath e @ [CHR 0x0A])]) \<and>
      GenerateExcelFile_stream w e [] = GenerateExcelFile w e []) \<and>
   stream_workbook w [] = Inr (workbook w []) \<and>
   row_numbers (workbook w []) sheetName = {1} \<and>
   map (\<lambda>c. GetCell (workbook w []) sheetName (c, 1)) [1, 2, 3, 4, 5, 6] = map (Some \<circ> StrVal) headers \<and>
   {pos. GetCell (workbook w []) sheetName pos \<noteq> None} = {1..6} \<times> {1}"
proof (intro conjI impI)
  show "row_numbers (workbook w []) sheetName = {1}"
    using workbook_rows [of w "[]"] by (simp add: TotalRows_def)
  show "map (\<lambda>c. GetCell (workbook w []) sheetName (c, 1)) [1, 2, 3, 4, 5, 6] = map (Some \<circ> StrVal) headers"
    by (simp add: workbook_cell headers_def)
  show "{pos. GetCell (workbook w []) sheetName pos \<noteq> None} = {1..6} \<times> {1}"
    by (auto simp: workbook_cell split: if_splits)
qed (simp_all add: empty_writers empty_stream GenerateExcelFile_def save_workbook_nil_iff save_workbook_ok)

theorem empty_list_header_only_witness:
  "os_MkdirAll (example_env (Inl ''down'') None) (filepath_Dir (example_env (Inl ''down'') None) ''data/stock_data.xlsx'') = None \<and>
   file_SaveAs (example_env (Inl ''down'') None) ''data/stock_data.xlsx'' (workbook (example_env (Inl ''down'') None) []) = None \<and>
   GenerateExcelFile (example_env (Inl ''down'') None) \<lparr>filePath = ''data/stock_data.xlsx''\<rparr> [] =
     (None, [EvMkdirAll ''data'', EvSaveAs ''data/stock_data.xlsx'' (workbook (example_env (Inl ''down'') None) []),
             EvPrintln (''Excel file saved at: data/stock_data.xlsx'' @ [CHR 0x0A])]) \<and>
   GenerateExcelFile_stream (example_env (Inl ''down'') None) \<lparr>filePath = ''data/stock_data.xlsx''\<rparr> [] =
     (None, [EvMkdirAll ''data'', EvSaveAs ''data/stock_data.xlsx'' (workbook (example_env (Inl ''down'') None) []),
             EvPrintln (''Excel file saved at: data/stock_data.xlsx'' @ [CHR 0x0A])])"
proof -
  let ?w = "example_env (Inl ''down'') None"
  let ?e = "\<lparr>filePath = ''data/stock_data.xlsx''\<rparr>"
  have d: "filepath_Dir ?w ''data/stock_data.xlsx'' = ''data''" by (simp add: example_env_def)
  have h: "os_MkdirAll ?w (filepath_Dir ?w (filePath ?e)) = None \<and>
           file_SaveAs ?w (filePath ?e) (workbook ?w []) = None"
    by (simp add: example_env_def)
  from empty_list_header_only [of ?w ?e] have
    "os_MkdirAll ?w (filepath_Dir ?w (filePath ?e)) = None \<and> file_SaveAs ?w (filePath ?e) (workbook ?w []) = None \<longrightarrow>
      GenerateExcelFile ?w ?e [] =
        (None, [EvMkdirAll (filepath_Dir ?w (filePath ?e)), EvSaveAs (filePath ?e) (workbook ?w []),
                EvPrintln (''Excel file saved at: '' @ filePath ?e @ [CHR 0x0A])]) \<and>
      GenerateExcelFile_stream ?w ?e [] = GenerateExcelFile ?w ?e []"
    by (elim conjE)
  with h have "GenerateExcelFile ?w ?e [] =
        (None, [EvMkdirAll (filepath_Dir ?w (filePath ?e)), EvSaveAs (filePath ?e) (workbook ?w []),
                EvPrintln (''Excel file saved at: '' @ filePath ?e @ [CHR 0x0A])]) \<and>
      GenerateExcelFile_stream ?w ?e [] = GenerateExcelFile ?w ?e []"
    by blast
  with h show ?thesis by (simp add: d)
qed

text \<open>
  C8, amended. Whenever either writer saves the file, its first file-system effect was
  \<open>os.MkdirAll\<close> on the directory of the target path, and that call succeeded. The
  in-memory writer makes this call first on every call; the streaming writer makes it first
  on every call with at most 1048575 entries, and for a longer list returns the error of the
  row it could not write, with no file-system effect at all. When the directory cannot be
  created the writer returns \<open>failed to create directory: ...\<close> and saves nothing; that
  message differs from every other error message of the writer.
\<close>

theorem directory_before_save:
  "(\<exists>rest. snd (GenerateExcelFile w e stocks) = EvMkdirAll (filepath_Dir w (filePath e)) # rest) \<and>
   (length stocks + 1 \<le> TotalRows \<longrightarrow>
      (\<exists>rest. snd (GenerateExcelFile_stream w e stocks) = EvMkdirAll (filepath_Dir w (filePath e)) # rest)) \<and>
   (TotalRows < length stocks + 1 \<longrightarrow>
      GenerateExcelFile_stream w e stocks =
        (Some (''failed to write row '' @ Sprintf_d (int TotalRows + 1) @ '': '' @ max_rows_error), [])) \<and>
   (\<forall>err. os_MkdirAll w (filepath_Dir w (filePath e)) = Some err \<longrightarrow>
      GenerateExcelFile w e stocks =
        (Some (''failed to create directory: '' @ err), [EvMkdirAll (filepath_Dir w (filePath e))]) \<and>
      (length stocks + 1 \<le> TotalRows \<longrightarrow>
         GenerateExcelFile_stream w e stocks =
           (Some (''failed to create directory: '' @ err), [EvMkdirAll (filepath_Dir w (filePath e))]))) \<and>
   (\<forall>path f. EvSaveAs path f \<in> set (snd (GenerateExcelFile w e stocks)) \<longrightarrow>
      os_MkdirAll w (filepath_Dir w (filePath e)) = None \<and> path = filePath e \<and>
      (\<exists>rest. snd (GenerateExcelFile w e stocks) =
         EvMkdirAll (filepath_Dir w (filePath e)) # EvSaveAs path f # rest)) \<and>
   (\<forall>path f. EvSaveAs path f \<in> set (snd (GenerateExcelFile_stream w e stocks)) \<longrightarrow>
      os_MkdirAll w (filepath_Dir w (filePath e)) = None \<and> path = filePath e \<and>
      (\<exists>rest. snd (GenerateExcelFile_stream w e stocks) =
         EvMkdirAll (filepath_Dir w (filePath e)) # EvSaveAs path f # rest)) \<and>
   (\<forall>a b. ''failed to create directory: '' @ a \<noteq> ''failed to save Excel file: '' @ b \<and>
      ''failed to create directory: '' @ a \<noteq> ''failed to create stream writer: '' @ b \<and>
      ''failed to create directory: '' @ a \<noteq> ''failed to write headers: '' @ b \<and>
      ''failed to create directory: '' @ a \<noteq> ''failed to write row '' @ b \<and>
      ''failed to create directory: '' @ a \<noteq> ''failed to flush stream writer: '' @ b)"
proof -
  have first: "\<exists>rest. snd (GenerateExcelFile w e stocks) = EvMkdirAll (filepath_Dir w (filePath e)) # rest"
    unfolding GenerateExcelFile_def by (rule save_workbook_first)
  have sfirst: "\<exists>rest. snd (GenerateExcelFile_stream w e stocks) = EvMkdirAll (filepath_Dir w (filePath e)) # rest"
    if "length stocks + 1 \<le> TotalRows"
  proof -
    from stream_workbook_exists [OF that] obtain f where "stream_workbook w stocks = Inr f" by blast
    then show ?thesis by (simp add: GenerateExcelFile_stream_def save_workbook_first)
  qed
  have err: "GenerateExcelFile w e stocks =
        (Some (''failed to create directory: '' @ err), [EvMkdirAll (filepath_Dir w (filePath e))])"
    if "os_MkdirAll w (filepath_Dir w (filePath e)) = Some err" for err
    unfolding GenerateExcelFile_def using that by (rule save_workbook_mkdir_error)
  have serr: "GenerateExcelFile_stream w e stocks =
        (Some (''failed to create directory: '' @ err), [EvMkdirAll (filepath_Dir w (filePath e))])"
    if "os_MkdirAll w (filepath_Dir w (filePath e)) = Some err" "length stocks + 1 \<le> TotalRows" for err
  proof -
    from stream_workbook_exists [OF that(2)] obtain f where "stream_workbook w stocks = Inr f" by blast
    then show ?thesis by (simp add: GenerateExcelFile_stream_def save_workbook_mkdir_error [OF that(1)])
  qed
  have saved: "os_MkdirAll w (filepath_Dir w (filePath e)) = None \<and> path = filePath e \<and>
      (\<exists>rest. snd (GenerateExcelFile w e stocks) =
         EvMkdirAll (filepath_Dir w (filePath e)) # EvSaveAs path f # rest)"
    if "EvSaveAs path f \<in> set (snd (GenerateExcelFile w e stocks))" for path f
  proof -
    from save_workbook_saved [OF that [unfolded GenerateExcelFile_def]]
    have ok: "os_MkdirAll w (filepath_Dir w (filePath e)) = None" and p: "path = filePath e"
      and g: "f = workbook w stocks" by simp_all
    from writer_saves [OF ok, of stocks] ok p g show ?thesis by simp
  qed
  have ssaved: "os_MkdirAll w (filepath_Dir w (filePath e)) = None \<and> path = filePath e \<and>
      (\<exists>rest. snd (GenerateExcelFile_stream w e stocks) =
         EvMkdirAll (filepath_Dir w (filePath e)) # EvSaveAs path f # rest)"
    if "EvSaveAs path f \<in> set (snd (GenerateExcelFile_stream w e stocks))" for path f
  proof -
    from stream_writer_saved [OF that]
    have s: "stream_workbook w stocks = Inr f" and ok: "os_MkdirAll w (filepath_Dir w (filePath e)) = None"
      and p: "path = filePath e" by simp_all
    from stream_writer_saves [OF s ok] ok p show ?thesis by simp
  qed
  show ?thesis
    by (intro conjI allI impI first sfirst stream_writer_beyond err serr writer_messages_differ
        saved [THEN conjunct1] saved [THEN conjunct2, THEN conjunct1] saved [THEN conjunct2, THEN conjunct2]
        ssaved [THEN conjunct1] ssaved [THEN conjunct2, THEN conjunct1] ssaved [THEN conjunct2, THEN conjunct2];
        assumption)
qed

theorem directory_before_save_witness:
  "os_MkdirAll (example_env (Inl ''down'') (Some ''permission denied'')) (filepath_Dir (example_env (Inl ''down'') (Some ''permission denied'')) ''data/stock_data.xlsx'') = Some ''permission denied'' \<and>
   length [example_stock] + 1 \<le> TotalRows \<and>
   GenerateExcelFile (example_env (Inl ''down'') (Some ''permission denied''))
       \<lparr>filePath = ''data/stock_data.xlsx''\<rparr> [example_stock] =
     (Some ''failed to create directory: permission denied'', [EvMkdirAll ''data'']) \<and>
   GenerateExcelFile_stream (example_env (Inl ''down'') (Some ''permission denied''))
       \<lparr>filePath = ''data/stock_data.xlsx''\<rparr> [example_stock] =
     (Some ''failed to create directory: permission denied'', [EvMkdirAll ''data''])"
proof -
  let ?w = "example_env (Inl ''down'') (Some ''permission denied'')"
  let ?e = "\<lparr>filePath = ''data/stock_data.xlsx''\<rparr>"
  have d: "filepath_Dir ?w ''data/stock_data.xlsx'' = ''data''" by (simp add: example_env_def)
  have h: "os_MkdirAll ?w (filepath_Dir ?w (filePath ?e)) = Some ''permission denied''"
    by (simp add: example_env_def)
  have h2: "length [example_stock] + 1 \<le> TotalRows" by (simp add: TotalRows_def)
  from directory_before_save [of ?w ?e "[example_stock]"] have
    "\<forall>err. os_MkdirAll ?w (filepath_Dir ?w (filePath ?e)) = Some err \<longrightarrow>
      GenerateExcelFile ?w ?e [example_stock] =
        (Some (''failed to create directory: '' @ err), [EvMkdirAll (filepath_Dir ?w (filePath ?e))]) \<and>
      (length [example_stock] + 1 \<le> TotalRows \<longrightarrow>
         GenerateExcelFile_stream ?w ?e [example_stock] =
           (Some (''failed to create directory: '' @ err), [EvMkdirAll (filepath_Dir ?w (filePath ?e))]))"
    by (elim conjE)
  with h h2 have "GenerateExcelFile ?w ?e [example_stock] =
        (Some (''failed to create directory: '' @ ''permission denied''), [EvMkdirAll (filepath_Dir ?w (filePath ?e))]) \<and>
      GenerateExcelFile_stream ?w ?e [example_stock] =
        (Some (''failed to create directory: '' @ ''permission denied''), [EvMkdirAll (filepath_Dir ?w (filePath ?e))])"
    by blast
  with h h2 show ?thesis by (simp add: d)
qed

text \<open>
  The statement for every call fails: with 1048576 entries the streaming writer neither
  creates the directory nor reports that it cannot be created.
\<close>

theorem directory_before_save_counterexample:
  "os_MkdirAll (example_env (Inl ''down'') (Some ''permission denied'')) ''data'' = Some ''permission denied'' \<and>
   GenerateExcelFile_stream (example_env (Inl ''down'') (Some ''permission denied''))
       \<lparr>filePath = ''data/stock_data.xlsx''\<rparr> (replicate 1048576 example_stock) =
     (Some ''failed to write row 1048577: row number exceeds maximum limit'', [])"
proof -
  have len: "length (replicate 1048576 example_stock) = 1048576" by (rule length_replicate)
  show ?thesis
    unfolding big_writer(3) [OF len] by (simp add: example_env_simps)
qed

section \<open>The fetcher and the entry point\<close>

lemma mapM_nth:
  "mapM f xs = Inr ys \<Longrightarrow> length ys = length xs \<and> (\<forall>k < length xs. f (xs ! k) = Inr (ys ! k))"
proof (induction xs arbitrary: ys)
  case Nil
  then show ?case by simp
next
  case (Cons x xs)
  from Cons.prems obtain y ys' where y: "f x = Inr y" and r: "mapM f xs = Inr ys'" and ys: "ys = y # ys'"
    by (auto split: sum.splits)
  from Cons.IH [OF r] show ?case
    by (auto simp: ys y nth_Cons')
qed

lemma fetch_messages_differ:
  "''failed to fetch stock data: '' @ a \<noteq> ''API request failed with status code: '' @ b"
  "''failed to fetch stock data: '' @ a \<noteq> ''failed to decode JSON response: '' @ c"
  "''API request failed with status code: '' @ b \<noteq> ''failed to decode JSON response: '' @ c"
  by simp_all

lemma fetch_transport:
  "http_Get w (apiURL s) = Inl err \<Longrightarrow>
   FetchStockData w s = (Inl (''failed to fetch stock data: '' @ err), [EvGet (apiURL s)])"
  by (simp add: FetchStockData_def)

lemma fetch_status:
  "http_Get w (apiURL s) = Inr resp \<Longrightarrow> StatusCode resp \<noteq> 200 \<Longrightarrow>
   FetchStockData w s =
     (Inl (''API request failed with status code: '' @ Sprintf_d (StatusCode resp)),
      [EvGet (apiURL s), EvClose])"
  by (simp add: FetchStockData_def read_response_def deferred_def http_StatusOK_def)

lemma fetch_decode_error:
  "http_Get w (apiURL s) = Inr resp \<Longrightarrow> StatusCode resp = 200 \<Longrightarrow> Decode (Body resp) = Inl err \<Longrightarrow>
   FetchStockData w s =
     (Inl (''failed to decode JSON response: '' @ err), [EvGet (apiURL s), EvRead, EvClose])"
  by (simp add: FetchStockData_def read_response_def deferred_def http_StatusOK_def)

lemma fetch_success:
  "http_Get w (apiURL s) = Inr resp \<Longrightarrow> StatusCode resp = 200 \<Longrightarrow> Decode (Body resp) = Inr r \<Longrightarrow>
   FetchStockData w s = (Inr (Response r), [EvGet (apiURL s), EvRead, EvClose])"
  by (simp add: FetchStockData_def read_response_def deferred_def http_StatusOK_def)

lemma decode_response_array:
  "Decode (Document (JObject [(''response'', JArray js)])) =
     map_sum id (\<lambda>xs. \<lparr>Response = xs\<rparr>) (mapM decode_StockData js)"
  by (simp add: decode_response_member_def to_lower_def split: sum.splits)

text \<open>
  C5. \<open>FetchStockData\<close> returns an entry list exactly when the GET answers without a
  transport error, the status code is 200 and the body decodes; the list is then the
  \<open>Response\<close> field of the decoded value, which for a body
  \<open>{"response": [...]}\<close> has one entry per array element, in the order of the array.
  A transport error, a status other than 200 and a decoding error each give an error and
  no list, and the three error messages are pairwise different whatever they wrap.
\<close>

theorem fetch_outcomes:
  "((\<exists>stocks. fst (FetchStockData w s) = Inr stocks) \<longleftrightarrow>
      (\<exists>resp r. http_Get w (apiURL s) = Inr resp \<and> StatusCode resp = 200 \<and> Decode (Body resp) = Inr r)) \<and>
   (\<forall>resp r. http_Get w (apiURL s) = Inr resp \<and> StatusCode resp = 200 \<and> Decode (Body resp) = Inr r \<longrightarrow>
      fst (FetchStockData w s) = Inr (Response r)) \<and>
   (\<forall>err. http_Get w (apiURL s) = Inl err \<longrightarrow>
      fst (FetchStockData w s) = Inl (''failed to fetch stock data: '' @ err)) \<and>
   (\<forall>resp. http_Get w (apiURL s) = Inr resp \<and> StatusCode resp \<noteq> 200 \<longrightarrow>
      fst (FetchStockData w s) = Inl (''API request failed with status code: '' @ Sprintf_d (StatusCode resp))) \<and>
   (\<forall>resp err. http_Get w (apiURL s) = Inr resp \<and> StatusCode resp = 200 \<and> Decode (Body resp) = Inl err \<longrightarrow>
      fst (FetchStockData w s) = Inl (''failed to decode JSON response: '' @ err)) \<and>
   (\<forall>a b c. ''failed to fetch stock data: '' @ a \<noteq> ''API request failed with status code: '' @ b \<and>
      ''failed to fetch stock data: '' @ a \<noteq> ''failed to decode JSON response: '' @ c \<and>
      ''API request failed with status code: '' @ b \<noteq> ''failed to decode JSON response: '' @ c) \<and>
   (\<forall>js r. Decode (Document (JObject [(''response'', JArray js)])) = Inr r \<longrightarrow>
      length (Response r) = length js \<and>
      (\<forall>k < length js. decode_StockData (js ! k) = Inr (Response r ! k)))"
proof (intro conjI allI impI)
  show "(\<exists>stocks. fst (FetchStockData w s) = Inr stocks) \<longleftrightarrow>
      (\<exists>resp r. http_Get w (apiURL s) = Inr resp \<and> StatusCode resp = 200 \<and> Decode (Body resp) = Inr r)"
  proof (cases "http_Get w (apiURL s)")
    case (Inl err)
    then show ?thesis by (simp add: fetch_transport)
  next
    case (Inr resp)
    show ?thesis
    proof (cases "StatusCode resp = 200")
      case False
      with Inr show ?thesis by (simp add: fetch_status)
    next
      case True
      with Inr show ?thesis
        by (cases "Decode (Body resp)") (simp_all add: fetch_decode_error fetch_success)
    qed
  qed
next
  fix js r k
  assume d: "Decode (Document (JObject [(''response'', JArray js)])) = Inr r"
  then obtain xs where m: "mapM decode_StockData js = Inr xs" and r: "r = \<lparr>Response = xs\<rparr>"
    unfolding decode_response_array by (cases "mapM decode_StockData js") auto
  from mapM_nth [OF m] show "length (Response r) = length js" by (simp add: r)
  assume "k < length js"
  with mapM_nth [OF m] show "decode_StockData (js ! k) = Inr (Response r ! k)" by (simp add: r)
qed (simp_all add: fetch_transport fetch_status fetch_decode_error fetch_success)

lemma Decode_example: "Decode example_body = Inr \<lparr>Response = [example_stock]\<rparr>"
  by (simp add: example_body_def decode_response_member_def decode_StockData_member_def
      to_lower_def zero_StockData_def example_stock_def)

theorem fetch_outcomes_witness:
  "http_Get (example_env (Inr \<lparr>StatusCode = 200, Body = example_body\<rparr>) None) (apiURL (NewStockService stockAPIURL)) =
     Inr \<lparr>StatusCode = 200, Body = example_body\<rparr> \<and>
   StatusCode \<lparr>StatusCode = 200, Body = example_body\<rparr> = 200 \<and>
   Decode (Body \<lparr>StatusCode = 200, Body = example_body\<rparr>) = Inr \<lparr>Response = [example_stock]\<rparr> \<and>
   fst (FetchStockData (example_env (Inr \<lparr>StatusCode = 200, Body = example_body\<rparr>) None) (NewStockService stockAPIURL)) =
     Inr [example_stock]"
proof -
  let ?resp = "\<lparr>StatusCode = 200, Body = example_body\<rparr>"
  let ?w = "example_env (Inr ?resp) None"
  let ?s = "NewStockService stockAPIURL"
  have h: "http_Get ?w (apiURL ?s) = Inr ?resp \<and> StatusCode ?resp = 200 \<and>
           Decode (Body ?resp) = Inr \<lparr>Response = [example_stock]\<rparr>"
    by (simp add: example_env_def Decode_example)
  from fetch_outcomes [of ?w ?s] have
    "\<forall>resp r. http_Get ?w (apiURL ?s) = Inr resp \<and> StatusCode resp = 200 \<and> Decode (Body resp) = Inr r \<longrightarrow>
      fst (FetchStockData ?w ?s) = Inr (Response r)"
    by (elim conjE)
  with h have "fst (FetchStockData ?w ?s) = Inr (Response \<lparr>Response = [example_stock]\<rparr>)"
    by blast
  with h show ?thesis by simp
qed

lemma fetch_events: "set (snd (FetchStockData w s)) \<subseteq> {EvGet (apiURL s), EvRead, EvClose}"
  by (auto simp: FetchStockData_def read_response_def deferred_def split: sum.splits if_splits)

lemma main_body_fetch_error:
  "fst (FetchStockData w (NewStockService stockAPIURL)) = Inl err \<Longrightarrow>
   main_body generate w =
     (snd (FetchStockData w (NewStockService stockAPIURL)) @ [EvFatalf (''Error fetching stock data: '' @ err)], 1)"
  by (simp add: main_body_def Let_def)

text \<open>
  C6. When \<open>FetchStockData\<close> returns an error, \<open>main\<close> logs it with
  \<open>log.Fatalf\<close> and ends with status 1; the run does not depend on the writer, and it
  creates no directory, saves no file and prints no notice. A status other than 200 gives
  such a run. Both source files behave alike.
\<close>

theorem fetch_error_stops_main:
  "(\<forall>err. fst (FetchStockData w (NewStockService stockAPIURL)) = Inl err \<longrightarrow>
      (\<forall>generate. main_body generate w =
         (snd (FetchStockData w (NewStockService stockAPIURL)) @
            [EvFatalf (''Error fetching stock data: '' @ err)], 1)) \<and>
      main w = (snd (FetchStockData w (NewStockService stockAPIURL)) @
            [EvFatalf (''Error fetching stock data: '' @ err)], 1) \<and>
      main_stream w = main w \<and>
      (\<forall>dir. EvMkdirAll dir \<notin> set (fst (main w))) \<and>
      (\<forall>path f. EvSaveAs path f \<notin> set (fst (main w))) \<and>
      (\<forall>msg. EvPrintln msg \<notin> set (fst (main w)))) \<and>
   (\<forall>resp. http_Get w stockAPIURL = Inr resp \<and> StatusCode resp \<noteq> 200 \<longrightarrow>
      main w = ([EvGet stockAPIURL, EvClose,
                 EvFatalf (''Error fetching stock data: '' @
                   ''API request failed with status code: '' @ Sprintf_d (StatusCode resp))], 1))"
proof (intro conjI allI impI)
  fix resp
  assume "http_Get w stockAPIURL = Inr resp \<and> StatusCode resp \<noteq> 200"
  then have "FetchStockData w (NewStockService stockAPIURL) =
     (Inl (''API request failed with status code: '' @ Sprintf_d (StatusCode resp)),
      [EvGet stockAPIURL, EvClose])"
    using fetch_status [of w "NewStockService stockAPIURL" resp] by (simp add: NewStockService_def)
  then show "main w = ([EvGet stockAPIURL, EvClose,
                 EvFatalf (''Error fetching stock data: '' @
                   ''API request failed with status code: '' @ Sprintf_d (StatusCode resp))], 1)"
    using main_body_fetch_error [of w _ GenerateExcelFile] by (simp add: main_def)
next
  fix err
  assume e: "fst (FetchStockData w (NewStockService stockAPIURL)) = Inl err"
  show m: "main w = (snd (FetchStockData w (NewStockService stockAPIURL)) @
            [EvFatalf (''Error fetching stock data: '' @ err)], 1)"
    unfolding main_def by (rule main_body_fetch_error [OF e])
  show "main_stream w = main w"
    by (simp add: main_stream_def main_def main_body_fetch_error [OF e])
  have ev: "set (fst (main w)) \<subseteq>
      {EvGet stockAPIURL, EvRead, EvClose, EvFatalf (''Error fetching stock data: '' @ err)}"
    using fetch_events [of w "NewStockService stockAPIURL"]
    by (auto simp: m NewStockService_def)
  show "EvMkdirAll dir \<notin> set (fst (main w))" for dir using ev by auto
  show "EvSaveAs path f \<notin> set (fst (main w))" for path f using ev by auto
  show "EvPrintln msg \<notin> set (fst (main w))" for msg using ev by auto
  show "main_body generate w = (snd (FetchStockData w (NewStockService stockAPIURL)) @
            [EvFatalf (''Error fetching stock data: '' @ err)], 1)" for generate
    by (rule main_body_fetch_error [OF e])
qed

theorem fetch_error_stops_main_witness:
  "http_Get (example_env (Inr \<lparr>StatusCode = 404, Body = example_body\<rparr>) None) stockAPIURL =
     Inr \<lparr>StatusCode = 404, Body = example_body\<rparr> \<and>
   StatusCode \<lparr>StatusCode = 404, Body = example_body\<rparr> \<noteq> 200 \<and>
   main (example_env (Inr \<lparr>StatusCode = 404, Body = example_body\<rparr>) None) =
     ([EvGet stockAPIURL, EvClose,
       EvFatalf ''Error fetching stock data: API request failed with status code: 404''], 1)"
proof -
  let ?resp = "\<lparr>StatusCode = 404, Body = example_body\<rparr>"
  let ?w = "example_env (Inr ?resp) None"
  have h: "http_Get ?w stockAPIURL = Inr ?resp \<and> StatusCode ?resp \<noteq> 200"
    by (simp add: example_env_def)
  from fetch_error_stops_main [of ?w] have
    "\<forall>resp. http_Get ?w stockAPIURL = Inr resp \<and> StatusCode resp \<noteq> 200 \<longrightarrow>
      main ?w = ([EvGet stockAPIURL, EvClose,
                 EvFatalf (''Error fetching stock data: '' @
                   ''API request failed with status code: '' @ Sprintf_d (StatusCode resp))], 1)"
    by (elim conjE)
  with h have "main ?w = ([EvGet stockAPIURL, EvClose,
                 EvFatalf (''Error fetching stock data: '' @
                   ''API request failed with status code: '' @ Sprintf_d (StatusCode ?resp))], 1)"
    by blast
  with h show ?thesis by (simp add: Sprintf_404)
qed

text \<open>
  C9. Once the GET has answered, the response body is closed exactly once, as the last
  effect before \<open>FetchStockData\<close> returns, whether the status check fails, decoding
  fails or the call succeeds.
\<close>

theorem body_closed_once:
  assumes "http_Get w (apiURL s) = Inr resp"
  shows "count_list (snd (FetchStockData w s)) EvClose = 1 \<and>
         last (snd (FetchStockData w s)) = EvClose \<and>
         (StatusCode resp \<noteq> 200 \<longrightarrow> snd (FetchStockData w s) = [EvGet (apiURL s), EvClose]) \<and>
         (StatusCode resp = 200 \<longrightarrow> snd (FetchStockData w s) = [EvGet (apiURL s), EvRead, EvClose])"
  using assms
  by (simp add: FetchStockData_def read_response_def deferred_def http_StatusOK_def split: sum.splits)

theorem body_closed_once_witness:
  "http_Get (example_env (Inr \<lparr>StatusCode = 200, Body = Unreadable ''unexpected EOF''\<rparr>) None) (apiURL (NewStockService stockAPIURL)) =
     Inr \<lparr>StatusCode = 200, Body = Unreadable ''unexpected EOF''\<rparr> \<and>
   count_list (snd (FetchStockData (example_env (Inr \<lparr>StatusCode = 200, Body = Unreadable ''unexpected EOF''\<rparr>) None)
      (NewStockService stockAPIURL))) EvClose = 1 \<and>
   last (snd (FetchStockData (example_env (Inr \<lparr>StatusCode = 200, Body = Unreadable ''unexpected EOF''\<rparr>) None)
      (NewStockService stockAPIURL))) = EvClose"
proof -
  let ?resp = "\<lparr>StatusCode = 200, Body = Unreadable ''unexpected EOF''\<rparr>"
  let ?w = "example_env (Inr ?resp) None"
  have h: "http_Get ?w (apiURL (NewStockService stockAPIURL)) = Inr ?resp"
    by (simp add: example_env_def)
  from body_closed_once [OF h] h show ?thesis by blast
qed

text \<open>
  C10, amended. When the status is 200 and the body is a JSON object in which no member
  has a key equal to \<open>response\<close> up to case folding, or every such member is
  \<open>null\<close>, \<open>FetchStockData\<close> returns the empty list and no error; if the file system
  then accepts the write, \<open>main\<close> saves the workbook of the empty list, whose only row
  is the header row, and ends with status 0.
\<close>

theorem missing_response_key:
  assumes "http_Get w stockAPIURL = Inr resp" and "StatusCode resp = 200"
    and "Body resp = Document (JObject ms)"
    and "\<forall>m \<in> set ms. fold_equal (fst m) ''response'' \<longrightarrow> snd m = JNull"
  shows "FetchStockData w (NewStockService stockAPIURL) = (Inr [], [EvGet stockAPIURL, EvRead, EvClose]) \<and>
    (os_MkdirAll w (filepath_Dir w (filepath_Join w dataDir excelFile)) = None \<and>
     file_SaveAs w (filepath_Join w dataDir excelFile) (workbook w []) = None \<longrightarrow>
       main w = ([EvGet stockAPIURL, EvRead, EvClose,
                  EvMkdirAll (filepath_Dir w (filepath_Join w dataDir excelFile)),
                  EvSaveAs (filepath_Join w dataDir excelFile) (workbook w []),
                  EvPrintln (''Excel file saved at: '' @ filepath_Join w dataDir excelFile @ [CHR 0x0A])], 0) \<and>
       main_stream w = main w) \<and>
    row_numbers (workbook w []) sheetName = {1}"
proof -
  have "Decode (Body resp) = Inr \<lparr>Response = []\<rparr>"
    using assms(3,4) by (simp add: null_members_decode)
  with assms(1,2) have f: "FetchStockData w (NewStockService stockAPIURL) =
      (Inr [], [EvGet stockAPIURL, EvRead, EvClose])"
    using fetch_success [of w "NewStockService stockAPIURL" resp "\<lparr>Response = []\<rparr>"]
    by (simp add: NewStockService_def)
  have m: "main w = ([EvGet stockAPIURL, EvRead, EvClose,
                  EvMkdirAll (filepath_Dir w (filepath_Join w dataDir excelFile)),
                  EvSaveAs (filepath_Join w dataDir excelFile) (workbook w []),
                  EvPrintln (''Excel file saved at: '' @ filepath_Join w dataDir excelFile @ [CHR 0x0A])], 0)"
    if "os_MkdirAll w (filepath_Dir w (filepath_Join w dataDir excelFile)) = None"
      and "file_SaveAs w (filepath_Join w dataDir excelFile) (workbook w []) = None"
    using that
    by (simp add: main_def main_body_def f NewExcelGenerator_def GenerateExcelFile_def save_workbook_def)
  have "main_stream w = main w"
    by (simp add: main_stream_def main_def main_body_def f empty_writers)
  moreover have "row_numbers (workbook w []) sheetName = {1}"
    using workbook_rows [of w "[]"] by (simp add: TotalRows_def)
  ultimately show ?thesis using f m by blast
qed

theorem missing_response_key_witness:
  "http_Get (example_env (Inr \<lparr>StatusCode = 200, Body = Document (JObject [(''status'', JString ''ok'')])\<rparr>) None) stockAPIURL =
     Inr \<lparr>StatusCode = 200, Body = Document (JObject [(''status'', JString ''ok'')])\<rparr> \<and>
   \<not> fold_equal ''status'' ''response'' \<and>
   FetchStockData (example_env (Inr \<lparr>StatusCode = 200, Body = Document (JObject [(''status'', JString ''ok'')])\<rparr>) None)
     (NewStockService stockAPIURL) = (Inr [], [EvGet stockAPIURL, EvRead, EvClose]) \<and>
   main (example_env (Inr \<lparr>StatusCode = 200, Body = Document (JObject [(''status'', JString ''ok'')])\<rparr>) None) =
     ([EvGet stockAPIURL, EvRead, EvClose, EvMkdirAll ''data'',
       EvSaveAs ''data/stock_data.xlsx'' (workbook (example_env (Inr \<lparr>StatusCode = 200, Body = Document (JObject [(''status'', JString ''ok'')])\<rparr>) None) []),
       EvPrintln (''Excel file saved at: data/stock_data.xlsx'' @ [CHR 0x0A])], 0)"
proof -
  let ?resp = "\<lparr>StatusCode = 200, Body = Document (JObject [(''status'', JString ''ok'')])\<rparr>"
  let ?w = "example_env (Inr ?resp) None"
  have nf: "\<not> fold_equal ''status'' ''response''"
    by (simp add: to_lower_def)
  have h1: "http_Get ?w stockAPIURL = Inr ?resp" by (simp add: example_env_def)
  have h2: "StatusCode ?resp = 200" by simp
  have h3: "Body ?resp = Document (JObject [(''status'', JString ''ok'')])" by simp
  have h4: "\<forall>m \<in> set [(''status'', JString ''ok'')]. fold_equal (fst m) ''response'' \<longrightarrow> snd m = JNull"
    using nf by simp
  have p: "filepath_Join ?w dataDir excelFile = ''data/stock_data.xlsx''"
    by (simp add: example_env_def dataDir_def excelFile_def)
  have d: "filepath_Dir ?w ''data/stock_data.xlsx'' = ''data''" by (simp add: example_env_def)
  have ok: "os_MkdirAll ?w ''data'' = None \<and> file_SaveAs ?w ''data/stock_data.xlsx'' (workbook (example_env (Inr \<lparr>StatusCode = 200, Body = Document (JObject [(''status'', JString ''ok'')])\<rparr>) None) []) = None"
    by (simp add: example_env_def)
  note t = missing_response_key [OF h1 h2 h3 h4, unfolded p d]
  from t ok have "main ?w = ([EvGet stockAPIURL, EvRead, EvClose, EvMkdirAll ''data'',
       EvSaveAs ''data/stock_data.xlsx'' (workbook (example_env (Inr \<lparr>StatusCode = 200, Body = Document (JObject [(''status'', JString ''ok'')])\<rparr>) None) []),
       EvPrintln (''Excel file saved at: '' @ ''data/stock_data.xlsx'' @ [CHR 0x0A])], 0)"
    by blast
  with t h1 nf show ?thesis by simp
qed

lemma to_lower_R: "to_lower CHR ''R'' = CHR ''r''"
  by code_simp

lemma Decode_capital:
  "Decode (Document (JObject [(''Response'', JArray [JObject [(''ticker'', JString ''ABC'')]])])) =
     Inr \<lparr>Response = [zero_StockData\<lparr>Ticker := ''ABC''\<rparr>]\<rparr>"
  by (simp add: decode_response_member_def decode_StockData_member_def to_lower_R)
     (simp add: to_lower_def)

text \<open>
  With the key compared exactly the statement fails: an object whose only key is
  \<open>Response\<close> has no key \<open>response\<close>, and its entries are returned.
\<close>

theorem missing_response_key_counterexample:
  "map_of [(''Response'', JArray [JObject [(''ticker'', JString ''ABC'')]])] ''response'' = None \<and>
   http_Get (example_env (Inr \<lparr>StatusCode = 200, Body = Document (JObject
       [(''Response'', JArray [JObject [(''ticker'', JString ''ABC'')]])])\<rparr>) None) stockAPIURL =
     Inr \<lparr>StatusCode = 200, Body = Document (JObject
       [(''Response'', JArray [JObject [(''ticker'', JString ''ABC'')]])])\<rparr> \<and>
   fst (FetchStockData (example_env (Inr \<lparr>StatusCode = 200, Body = Document (JObject
       [(''Response'', JArray [JObject [(''ticker'', JString ''ABC'')]])])\<rparr>) None)
     (NewStockService stockAPIURL)) = Inr [zero_StockData\<lparr>Ticker := ''ABC''\<rparr>] \<and>
   [zero_StockData\<lparr>Ticker := ''ABC''\<rparr>] \<noteq> []"
proof -
  let ?resp = "\<lparr>StatusCode = 200, Body = Document (JObject
       [(''Response'', JArray [JObject [(''ticker'', JString ''ABC'')]])])\<rparr>"
  let ?w = "example_env (Inr ?resp) None"
  have g: "http_Get ?w (apiURL (NewStockService stockAPIURL)) = Inr ?resp"
    by (simp add: example_env_simps)
  have s: "StatusCode ?resp = 200" by simp
  have d: "Decode (Body ?resp) = Inr \<lparr>Response = [zero_StockData\<lparr>Ticker := ''ABC''\<rparr>]\<rparr>"
    by (simp only: http_Response.select_convs Decode_capital)
  have "FetchStockData ?w (NewStockService stockAPIURL) =
      (Inr (Response \<lparr>Response = [zero_StockData\<lparr>Ticker := ''ABC''\<rparr>]\<rparr>),
       [EvGet (apiURL (NewStockService stockAPIURL)), EvRead, EvClose])"
    by (rule fetch_success [OF g s d])
  then show ?thesis by (simp add: example_env_simps)
qed

end
